theory Spec2Isabelle
  imports Complex_Main "HOL-Library.AList" "HOL-Library.Log_Nat"
begin

section \<open>JavaScript values and the host environment\<close>

text \<open>
  A JavaScript number is a finite value (a rational here; \<open>-0\<close> is not told apart from
  \<open>0\<close>), \<open>NaN\<close> or an infinity. A value is a primitive, an array or a plain object; an
  object is the list of its own properties in insertion order, and reading a property
  takes the first entry with that key.
\<close>

datatype jsnum = NaN | Fin rat | PosInf | NegInf

datatype jsval =
    JUndefined
  | JNull
  | JBool bool
  | JNum jsnum
  | JStr string
  | JArr "jsval list"
  | JObj "(string \<times> jsval) list"

text \<open>
  A thrown exception: \<^verbatim>\<open>new Error(message)\<close>, a \<^verbatim>\<open>TypeError\<close> of the engine, or the
  \<^verbatim>\<open>QuotaExceededError\<close> of \<^verbatim>\<open>localStorage.setItem\<close>.
\<close>

datatype error = Error string | TypeError string | QuotaExceededError

text \<open>
  The clock and the random source are inputs. The world holds, for each of them, the
  values its successive calls return and the number of calls made so far:
  \<^item> \<open>dateNow\<close>: \<^verbatim>\<open>Date.now()\<close>, milliseconds since the epoch;
  \<^item> \<open>mathRandom\<close>: \<^verbatim>\<open>Math.random()\<close>, given by the base-16 digits of its fraction
    (the value \<open>0.a3f\<close> in base 16 is \<open>[10, 3, 15]\<close>, the value 0 is \<open>[]\<close>);
  \<^item> \<open>perfNow\<close>: \<^verbatim>\<open>performance.now()\<close>, the double it returns, in milliseconds
    (\<^verbatim>\<open>x % 1\<close> of a double is exact);
  \<^item> \<open>isoNow\<close>: \<^verbatim>\<open>new Date().toISOString()\<close>.
\<close>

record world =
  dateNow :: "nat \<Rightarrow> nat"
  dateCalls :: nat
  mathRandom :: "nat \<Rightarrow> nat list"
  randomCalls :: nat
  perfNow :: "nat \<Rightarrow> rat"
  perfCalls :: nat
  isoNow :: "nat \<Rightarrow> string"
  isoCalls :: nat

definition Date_now :: "'a world_scheme \<Rightarrow> nat \<times> 'a world_scheme" where
  "Date_now w = (dateNow w (dateCalls w), w\<lparr>dateCalls := Suc (dateCalls w)\<rparr>)"

definition Math_random :: "'a world_scheme \<Rightarrow> nat list \<times> 'a world_scheme" where
  "Math_random w = (mathRandom w (randomCalls w), w\<lparr>randomCalls := Suc (randomCalls w)\<rparr>)"

definition performance_now :: "'a world_scheme \<Rightarrow> rat \<times> 'a world_scheme" where
  "performance_now w = (perfNow w (perfCalls w), w\<lparr>perfCalls := Suc (perfCalls w)\<rparr>)"

definition toISOString_now :: "'a world_scheme \<Rightarrow> string \<times> 'a world_scheme" where
  "toISOString_now w = (isoNow w (isoCalls w), w\<lparr>isoCalls := Suc (isoCalls w)\<rparr>)"

subsection \<open>Strings\<close>

definition hexDigit :: "nat \<Rightarrow> char" where
  "hexDigit d = ''0123456789abcdef'' ! (d mod 16)"

text \<open>The decimal text of a non-negative integer, as a template literal prints it.\<close>

fun showNat :: "nat \<Rightarrow> string" where
  "showNat n = (if n < 10 then [hexDigit n] else showNat (n div 10) @ [hexDigit (n mod 10)])"

declare showNat.simps [simp del]

text \<open>\<^verbatim>\<open>x.toString(16)\<close> for a number \<open>0 \<le> x < 1\<close> given by its base-16 digits.\<close>

definition toString16 :: "nat list \<Rightarrow> string" where
  "toString16 ds = (if ds = [] then ''0'' else ''0.'' @ map hexDigit ds)"

definition substr :: "nat \<Rightarrow> nat \<Rightarrow> string \<Rightarrow> string" where
  "substr start len s = take len (drop start s)"

definition substring :: "nat \<Rightarrow> nat \<Rightarrow> string \<Rightarrow> string" where
  "substring start end s = take (end - start) (drop start s)"

definition isDigit :: "char \<Rightarrow> bool" where
  "isDigit c = (c \<in> set ''0123456789'')"

definition isHexLower :: "char \<Rightarrow> bool" where
  "isHexLower c = (c \<in> set ''0123456789abcdef'')"

definition isHexAnyCase :: "char \<Rightarrow> bool" where
  "isHexAnyCase c = (c \<in> set ''0123456789abcdefABCDEF'')"

section \<open>Arithmetic on numbers (IEEE 754 binary64)\<close>

text \<open>
  A finite number is the rational a double represents. An operation computes the exact
  result and rounds it to the nearest double, ties to the even significand; a rounded
  magnitude of \<open>2^1024\<close> or more is an infinity. Below \<open>2^-1022\<close> the doubles are spaced
  \<open>2^-1074\<close> apart.
\<close>

definition pow2 :: "int \<Rightarrow> rat" where
  "pow2 k = (if 0 \<le> k then 2 ^ nat k else 1 / 2 ^ nat (- k))"

text \<open>The exponent \<open>e\<close> with \<open>2^e \<le> |x| < 2^(e+1)\<close>, for \<open>x \<noteq> 0\<close>.\<close>

definition binade :: "rat \<Rightarrow> int" where
  "binade x =
     (let a = \<bar>x\<bar> in
      if 1 \<le> a then bitlen \<lfloor>a\<rfloor> - 1
      else
        let j = bitlen \<lfloor>1 / a\<rfloor> - 1
        in if a * 2 ^ nat j = 1 then - j else - j - 1)"

definition roundHalfEven :: "rat \<Rightarrow> int" where
  "roundHalfEven m =
     (let f = \<lfloor>m\<rfloor>; d = m - of_int f in
      if d < 1 / 2 then f
      else if 1 / 2 < d then f + 1
      else if even f then f else f + 1)"

definition toDouble :: "rat \<Rightarrow> jsnum" where
  "toDouble x =
     (if x = 0 then Fin 0
      else
        let e = max (binade x) (- 1022);
            u = pow2 (e - 52);
            y = of_int (roundHalfEven (x / u)) * u
        in if 2 ^ 1024 \<le> \<bar>y\<bar> then (if 0 < x then PosInf else NegInf) else Fin y)"

text \<open>
  The sign of a number other than \<open>NaN\<close>. A zero has no sign here: the code of this
  development never divides by a zero and never prints one.
\<close>

definition numSign :: "jsnum \<Rightarrow> int" where
  "numSign a = (case a of NaN \<Rightarrow> 0 | Fin x \<Rightarrow> sgn \<lfloor>sgn x\<rfloor> | PosInf \<Rightarrow> 1 | NegInf \<Rightarrow> - 1)"

definition numNeg :: "jsnum \<Rightarrow> jsnum" where
  "numNeg a = (case a of NaN \<Rightarrow> NaN | Fin x \<Rightarrow> Fin (- x) | PosInf \<Rightarrow> NegInf | NegInf \<Rightarrow> PosInf)"

definition numAdd :: "jsnum \<Rightarrow> jsnum \<Rightarrow> jsnum" where
  "numAdd a b =
     (if a = NaN \<or> b = NaN then NaN
      else
        case (a, b) of
          (Fin x, Fin y) \<Rightarrow> toDouble (x + y)
        | (Fin x, _) \<Rightarrow> b
        | (_, Fin y) \<Rightarrow> a
        | _ \<Rightarrow> if a = b then a else NaN)"

definition numSub :: "jsnum \<Rightarrow> jsnum \<Rightarrow> jsnum" where
  "numSub a b = numAdd a (numNeg b)"

definition numMul :: "jsnum \<Rightarrow> jsnum \<Rightarrow> jsnum" where
  "numMul a b =
     (if a = NaN \<or> b = NaN then NaN
      else
        case (a, b) of
          (Fin x, Fin y) \<Rightarrow> toDouble (x * y)
        | _ \<Rightarrow>
            let s = numSign a * numSign b
            in if s = 0 then NaN else if 0 < s then PosInf else NegInf)"

definition numDiv :: "jsnum \<Rightarrow> jsnum \<Rightarrow> jsnum" where
  "numDiv a b =
     (if a = NaN \<or> b = NaN then NaN
      else
        case (a, b) of
          (Fin x, Fin y) \<Rightarrow>
            if y = 0 then (if x = 0 then NaN else if 0 < x then PosInf else NegInf)
            else toDouble (x / y)
        | (Fin x, _) \<Rightarrow> Fin 0
        | (_, Fin y) \<Rightarrow> if (a = PosInf) = (0 \<le> y) then PosInf else NegInf
        | _ \<Rightarrow> NaN)"

definition numLt :: "jsnum \<Rightarrow> jsnum \<Rightarrow> bool" where
  \<comment> \<open>\<^verbatim>\<open>a < b\<close>; every comparison with \<open>NaN\<close> is false\<close>
  "numLt a b =
     (if a = NaN \<or> b = NaN then False
      else
        case (a, b) of
          (Fin x, Fin y) \<Rightarrow> x < y
        | (NegInf, _) \<Rightarrow> b \<noteq> NegInf
        | (_, PosInf) \<Rightarrow> a \<noteq> PosInf
        | _ \<Rightarrow> False)"

definition numGe :: "jsnum \<Rightarrow> jsnum \<Rightarrow> bool" where
  \<comment> \<open>\<^verbatim>\<open>a >= b\<close>\<close>
  "numGe a b = (a \<noteq> NaN \<and> b \<noteq> NaN \<and> \<not> numLt a b)"

definition Math_floor :: "jsnum \<Rightarrow> jsnum" where
  "Math_floor a = (case a of Fin x \<Rightarrow> Fin (of_int \<lfloor>x\<rfloor>) | _ \<Rightarrow> a)"

definition Math_round :: "jsnum \<Rightarrow> jsnum" where
  \<comment> \<open>the nearest integer, a tie going up\<close>
  "Math_round a = (case a of Fin x \<Rightarrow> Fin (of_int \<lfloor>x + 1 / 2\<rfloor>) | _ \<Rightarrow> a)"

definition Math_abs :: "jsnum \<Rightarrow> jsnum" where
  "Math_abs a = (case a of NaN \<Rightarrow> NaN | Fin x \<Rightarrow> Fin \<bar>x\<bar> | _ \<Rightarrow> PosInf)"

section \<open>Plate solver (calculatePlates in App.js)\<close>

datatype weightUnit = Lbs | Kg

text \<open>The denominations; each of them is a double.\<close>

definition PLATE_WEIGHTS_LBS :: "rat list" where
  "PLATE_WEIGHTS_LBS = [45, 25, 10, 5, 5 / 2]"

definition PLATE_WEIGHTS_KG :: "rat list" where
  "PLATE_WEIGHTS_KG = [25, 20, 15, 10, 5, 5 / 2, 5 / 4]"

text \<open>\<^verbatim>\<open>Math.round(x * 100) / 100\<close>\<close>

definition round2 :: "jsnum \<Rightarrow> jsnum" where
  "round2 x = numDiv (Math_round (numMul x (Fin 100))) (Fin 100)"

text \<open>
  The \<^verbatim>\<open>for (const plateWeight of plateWeights)\<close> loop. It returns the breakdown
  (denomination, count) in the order of the plate list, every denomination starting at
  count 0 as \<^verbatim>\<open>Object.fromEntries(plateWeights.map(w => [w, 0]))\<close> sets it, together
  with the remaining weight after the last denomination.
\<close>

fun fillPlates :: "rat list \<Rightarrow> jsnum \<Rightarrow> (rat \<times> jsnum) list \<times> jsnum" where
  "fillPlates [] remainingWeight = ([], remainingWeight)"
| "fillPlates (plateWeight # rest) remainingWeight =
     (if numGe remainingWeight (Fin plateWeight) then
        let count = Math_floor (numDiv remainingWeight (Fin plateWeight));
            r1 = numSub remainingWeight (numMul count (Fin plateWeight));
            r2 = round2 r1;
            (bd, final) = fillPlates rest r2
        in ((plateWeight, count) # bd, final)
      else
        let (bd, final) = fillPlates rest remainingWeight
        in ((plateWeight, Fin 0) # bd, final))"

record plateResult =
  plateBreakdown :: "(rat \<times> jsnum) list"
  actualWeight :: jsnum
  targetWeight :: jsnum
  exactMatch :: bool
  totalPlates :: jsnum
  barbellWeight :: jsnum
  plateWeight :: jsnum
  unitLabel :: weightUnit

text \<open>
  \<^verbatim>\<open>Object.entries\<close> and \<^verbatim>\<open>Object.values\<close> enumerate the keys that are array indices
  first, in ascending order, and then the other keys in the order of their insertion.
\<close>

definition isIndexKey :: "rat \<Rightarrow> bool" where
  "isIndexKey w = (of_int \<lfloor>w\<rfloor> = w \<and> 0 \<le> w \<and> w < 4294967295)"

definition entriesOrder :: "(rat \<times> 'a) list \<Rightarrow> (rat \<times> 'a) list" where
  "entriesOrder bd =
     sort_key fst (filter (\<lambda>wc. isIndexKey (fst wc)) bd)
     @ filter (\<lambda>wc. \<not> isIndexKey (fst wc)) bd"

text \<open>
  The two \<^verbatim>\<open>reduce\<close> calls over the breakdown: the weight of the plates and their number.
  \<^verbatim>\<open>parseFloat\<close> of a key gives the denomination back.
\<close>

definition plateSum :: "(rat \<times> jsnum) list \<Rightarrow> jsnum" where
  "plateSum bd = fold (\<lambda>wc total. numAdd total (numMul (Fin (fst wc)) (snd wc))) (entriesOrder bd) (Fin 0)"

definition plateCount :: "(rat \<times> jsnum) list \<Rightarrow> jsnum" where
  "plateCount bd = fold (\<lambda>wc total. numAdd total (snd wc)) (entriesOrder bd) (Fin 0)"

text \<open>
  calculatePlates for the unit and the bar weight of the component's state. The
  tolerance of \<open>exactMatch\<close> is the double nearest to 0.01.
\<close>

definition calculatePlates :: "weightUnit \<Rightarrow> jsnum \<Rightarrow> jsnum \<Rightarrow> plateResult" where
  "calculatePlates u barbell target =
     (let plateWeights = (if u = Lbs then PLATE_WEIGHTS_LBS else PLATE_WEIGHTS_KG) in
      if numLt target barbell then
        \<lparr> plateBreakdown = map (\<lambda>w. (w, Fin 0)) plateWeights,
          actualWeight = barbell,
          targetWeight = target,
          exactMatch = False,
          totalPlates = Fin 0,
          barbellWeight = barbell,
          plateWeight = Fin 0,
          unitLabel = u \<rparr>
      else
        let remainingWeight = round2 (numSub target barbell);
            bd = fst (fillPlates plateWeights remainingWeight);
            pw = plateSum bd;
            actual = numAdd barbell pw
        in \<lparr> plateBreakdown = bd,
             actualWeight = actual,
             targetWeight = target,
             exactMatch = numLt (Math_abs (numSub actual target)) (toDouble (1 / 100)),
             totalPlates = plateCount bd,
             barbellWeight = barbell,
             plateWeight = pw,
             unitLabel = u \<rparr>)"







section \<open>Identifier generator (utils/idGenerator.js)\<close>

definition generateUniqueId :: "'a world_scheme \<Rightarrow> string \<times> 'a world_scheme" where
  "generateUniqueId w =
     (let (timestamp, w1) = Date_now w;
          (r, w2) = Math_random w1;
          randomHex = substr 2 6 (toString16 r)
      in (showNat timestamp @ ''_'' @ randomHex, w2))"

text \<open>
  \<^verbatim>\<open>'xxxxxxxx-xxxx-4xxx-yxxx-xxxxxxxxxxxx'.replace(/[xy]/g, ...)\<close>: every \<open>x\<close> and \<open>y\<close>, from
  left to right, draws \<^verbatim>\<open>r = Math.random() * 16 | 0\<close>, the first base-16 digit of the
  draw. For \<open>r < 16\<close>, \<^verbatim>\<open>(r & 0x3) | 0x8\<close> is \<open>r mod 4 + 8\<close>.
\<close>

fun uuidReplace :: "string \<Rightarrow> 'a world_scheme \<Rightarrow> string \<times> 'a world_scheme" where
  "uuidReplace [] w = ([], w)"
| "uuidReplace (c # cs) w =
     (if c = CHR ''x'' \<or> c = CHR ''y'' then
        let (ds, w1) = Math_random w;
            r = (case ds of [] \<Rightarrow> 0 | d # _ \<Rightarrow> d mod 16);
            v = (if c = CHR ''x'' then r else r mod 4 + 8);
            (rest, w2) = uuidReplace cs w1
        in (hexDigit v # rest, w2)
      else
        let (rest, w1) = uuidReplace cs w
        in (c # rest, w1))"

definition generateUUID :: "'a world_scheme \<Rightarrow> string \<times> 'a world_scheme" where
  "generateUUID w = uuidReplace ''xxxxxxxx-xxxx-4xxx-yxxx-xxxxxxxxxxxx'' w"

text \<open>
  The digits a template literal prints for a number that is a non-negative integer.
\<close>

definition wholePart :: "jsnum \<Rightarrow> nat" where
  "wholePart a = (case a of Fin x \<Rightarrow> nat \<lfloor>x\<rfloor> | _ \<Rightarrow> 0)"

text \<open>
  The \<^verbatim>\<open>while (attempts < maxAttempts)\<close> loop of generateWorkoutId, entered with the
  current value of \<open>attempts\<close>. The set holds the identifiers already taken.
\<close>

function generateWorkoutIdLoop ::
  "'a world_scheme \<Rightarrow> string set \<Rightarrow> nat \<Rightarrow> string \<times> 'a world_scheme" where
  "generateWorkoutIdLoop w existingIds attempts =
     (if attempts < 100 then
        let (uid, w1) = generateUniqueId w in
        if uid \<notin> existingIds then (uid, w1)
        else
          let attempts1 = attempts + 1 in
          if attempts1 > 10 then
            let (timestamp, w2) = Date_now w1;
                (p, w3) = performance_now w2;
                microseconds = frac p;
                (r, w4) = Math_random w3;
                randomHex = substr 2 8 (toString16 r);
                uniqueId = showNat timestamp @ ''_''
                  @ showNat (wholePart (Math_floor (numMul (Fin microseconds) (Fin 1000))))
                  @ ''_'' @ randomHex
            in if uniqueId \<notin> existingIds then (uniqueId, w4)
               else generateWorkoutIdLoop w4 existingIds attempts1
          else generateWorkoutIdLoop w1 existingIds attempts1
      else generateUUID w)"
  by pat_completeness auto
termination
  by (relation "measure (\<lambda>(w, existingIds, attempts). 100 - attempts)") auto

declare generateWorkoutIdLoop.simps [simp del]

definition generateWorkoutId :: "'a world_scheme \<Rightarrow> string set \<Rightarrow> string \<times> 'a world_scheme" where
  "generateWorkoutId w existingIds = generateWorkoutIdLoop w existingIds 0"

text \<open>The three patterns of isValidWorkoutId, on the text of a string.\<close>

definition timestampRandomPattern :: "string \<Rightarrow> bool" where
  \<comment> \<open>\<^verbatim>\<open>/^\d{13}_[a-f0-9]{6,}$/\<close>\<close>
  "timestampRandomPattern s =
     (length s \<ge> 20 \<and> list_all isDigit (take 13 s) \<and> s ! 13 = CHR ''_''
      \<and> list_all isHexLower (drop 14 s))"

definition uuidPattern :: "string \<Rightarrow> bool" where
  \<comment> \<open>\<^verbatim>\<open>/^[0-9a-f]{8}-[0-9a-f]{4}-4[0-9a-f]{3}-[89ab][0-9a-f]{3}-[0-9a-f]{12}$/i\<close>\<close>
  "uuidPattern s =
     (length s = 36
      \<and> list_all isHexAnyCase (take 8 s) \<and> s ! 8 = CHR ''-''
      \<and> list_all isHexAnyCase (take 4 (drop 9 s)) \<and> s ! 13 = CHR ''-''
      \<and> s ! 14 = CHR ''4'' \<and> list_all isHexAnyCase (take 3 (drop 15 s)) \<and> s ! 18 = CHR ''-''
      \<and> s ! 19 \<in> set ''89abAB'' \<and> list_all isHexAnyCase (take 3 (drop 20 s)) \<and> s ! 23 = CHR ''-''
      \<and> list_all isHexAnyCase (drop 24 s))"

definition numericPattern :: "string \<Rightarrow> bool" where
  \<comment> \<open>\<^verbatim>\<open>/^\d+$/\<close>\<close>
  "numericPattern s = (s \<noteq> [] \<and> list_all isDigit s)"

definition isValidWorkoutId :: "jsval \<Rightarrow> bool" where
  "isValidWorkoutId v =
     (case v of
        JStr s \<Rightarrow>
          if s = [] then False
          else if timestampRandomPattern s then True
          else if uuidPattern s then True
          else if numericPattern s then True
          else False
      | _ \<Rightarrow> False)"

text \<open>
  upgradeLegacyId: an identifier in the new format is returned as it is, any other is
  replaced by a generated one.
\<close>

definition upgradeLegacyId ::
  "'a world_scheme \<Rightarrow> jsval \<Rightarrow> string set \<Rightarrow> jsval \<times> 'a world_scheme" where
  "upgradeLegacyId w oldId existingIds =
     (if isValidWorkoutId oldId \<and> \<not> (case oldId of JStr s \<Rightarrow> numericPattern s | _ \<Rightarrow> False)
      then (oldId, w)
      else let (newId, w1) = generateWorkoutId w existingIds in (JStr newId, w1))"

section \<open>Record normalisation and validation (services/dataService.js)\<close>

subsection \<open>Operators of the language\<close>

text \<open>Truthiness, as \<^verbatim>\<open>!x\<close>, \<^verbatim>\<open>x || y\<close> and \<^verbatim>\<open>Boolean(x)\<close> decide it.\<close>

definition truthy :: "jsval \<Rightarrow> bool" where
  "truthy v =
     (case v of
        JUndefined \<Rightarrow> False
      | JNull \<Rightarrow> False
      | JBool b \<Rightarrow> b
      | JNum n \<Rightarrow> n \<noteq> NaN \<and> n \<noteq> Fin 0
      | JStr s \<Rightarrow> s \<noteq> []
      | JArr _ \<Rightarrow> True
      | JObj _ \<Rightarrow> True)"

definition orElse :: "jsval \<Rightarrow> jsval \<Rightarrow> jsval" where
  \<comment> \<open>\<^verbatim>\<open>a || b\<close> for a right operand without effects\<close>
  "orElse a b = (if truthy a then a else b)"

text \<open>
  What the host decides: \<open>numberOfString\<close> is \<^verbatim>\<open>Number(s)\<close> on a string (the
  string-to-number grammar), \<open>stringOfNumber\<close> the text of a number, \<open>dateOf\<close> the time
  value of \<^verbatim>\<open>new Date(v)\<close> for a value that converts to a primitive (\<open>NaN\<close> for an
  invalid date).
\<close>

record host =
  numberOfString :: "string \<Rightarrow> jsnum"
  stringOfNumber :: "jsnum \<Rightarrow> string"
  dateOf :: "jsval \<Rightarrow> jsnum"

definition isNullish :: "jsval \<Rightarrow> bool" where
  "isNullish v = (v = JUndefined \<or> v = JNull)"

fun joinWith :: "string \<Rightarrow> string list \<Rightarrow> string" where
  "joinWith sep [] = []"
| "joinWith sep [x] = x"
| "joinWith sep (x # y # ys) = x @ sep @ joinWith sep (y # ys)"

text \<open>
  Converting an object to a primitive calls its \<^verbatim>\<open>valueOf\<close> and \<^verbatim>\<open>toString\<close>. On the
  values of this model (parsed JSON) an own property is never callable, the inherited
  \<^verbatim>\<open>valueOf\<close> returns the object itself, and the inherited \<^verbatim>\<open>toString\<close> returns a string
  (for an array, the texts of its elements joined by commas). So the conversion raises a
  TypeError exactly for an object with an own property \<^verbatim>\<open>toString\<close>, and for an array
  that holds such a value.
\<close>

fun toPrimitiveThrows :: "jsval \<Rightarrow> bool" where
  "toPrimitiveThrows (JObj fs) = (''toString'' \<in> set (map fst fs))"
| "toPrimitiveThrows (JArr xs) = (\<exists>x \<in> set xs. toPrimitiveThrows x)"
| "toPrimitiveThrows v = False"

text \<open>The text of a value whose conversion does not raise.\<close>

fun textOf :: "host \<Rightarrow> jsval \<Rightarrow> string" where
  "textOf h JUndefined = ''undefined''"
| "textOf h JNull = ''null''"
| "textOf h (JBool b) = (if b then ''true'' else ''false'')"
| "textOf h (JNum n) = stringOfNumber h n"
| "textOf h (JStr s) = s"
| "textOf h (JArr xs) = joinWith '','' (map (\<lambda>x. if isNullish x then [] else textOf h x) xs)"
| "textOf h (JObj fs) = ''[object Object]''"

text \<open>
  \<^verbatim>\<open>Number(v)\<close>. The text \<^verbatim>\<open>[object Object]\<close> of a plain object is not a number.
\<close>

definition js_Number :: "host \<Rightarrow> jsval \<Rightarrow> error + jsnum" where
  "js_Number h v =
     (case v of
        JUndefined \<Rightarrow> Inr NaN
      | JNull \<Rightarrow> Inr (Fin 0)
      | JBool b \<Rightarrow> Inr (Fin (if b then 1 else 0))
      | JNum n \<Rightarrow> Inr n
      | JStr s \<Rightarrow> Inr (numberOfString h s)
      | JArr xs \<Rightarrow>
          if toPrimitiveThrows v then Inl (TypeError ''Cannot convert object to primitive value'')
          else Inr (numberOfString h (textOf h v))
      | JObj fs \<Rightarrow>
          if toPrimitiveThrows v then Inl (TypeError ''Cannot convert object to primitive value'')
          else Inr NaN)"

text \<open>The time value of \<^verbatim>\<open>new Date(v)\<close>.\<close>

definition js_Date :: "host \<Rightarrow> jsval \<Rightarrow> error + jsnum" where
  "js_Date h v =
     (if toPrimitiveThrows v then Inl (TypeError ''Cannot convert object to primitive value'')
      else Inr (dateOf h v))"

definition numOr :: "jsnum \<Rightarrow> rat \<Rightarrow> jsnum" where
  \<comment> \<open>\<^verbatim>\<open>n || d\<close> for a number \<open>n\<close>\<close>
  "numOr n d = (if n = NaN \<or> n = Fin 0 then Fin d else n)"

definition leZero :: "jsnum \<Rightarrow> bool" where
  \<comment> \<open>\<^verbatim>\<open>n <= 0\<close>; every comparison with \<open>NaN\<close> is false\<close>
  "leZero n = (case n of NaN \<Rightarrow> False | Fin r \<Rightarrow> r \<le> 0 | PosInf \<Rightarrow> False | NegInf \<Rightarrow> True)"

text \<open>
  Reading a property of a value that is neither \<open>null\<close> nor \<open>undefined\<close>. Only the own
  properties of objects are found; none of the property names read in this development
  is defined on a prototype.
\<close>

definition getProp :: "jsval \<Rightarrow> string \<Rightarrow> jsval" where
  "getProp v k =
     (case v of
        JObj fs \<Rightarrow> (case map_of fs k of Some x \<Rightarrow> x | None \<Rightarrow> JUndefined)
      | _ \<Rightarrow> JUndefined)"

definition isNumber :: "jsval \<Rightarrow> bool" where
  \<comment> \<open>\<^verbatim>\<open>typeof v === 'number'\<close>\<close>
  "isNumber v = (case v of JNum _ \<Rightarrow> True | _ \<Rightarrow> False)"

definition numberValue :: "jsval \<Rightarrow> jsnum" where
  "numberValue v = (case v of JNum n \<Rightarrow> n | _ \<Rightarrow> NaN)"

subsection \<open>DataValidators.workout\<close>

definition requiredWorkoutFields :: "string list" where
  "requiredWorkoutFields =
     [''id'', ''date'', ''exercise'', ''targetWeight'', ''actualWeight'', ''unit'', ''sets'', ''reps'']"

definition DataValidators_workout :: "jsval \<Rightarrow> error + bool" where
  \<open>DataValidators_workout workout =
     (if isNullish workout then Inl (TypeError ''Cannot read properties of null or undefined'')
      else
      let missing = filter (\<lambda>field. isNullish (getProp workout field)) requiredWorkoutFields in
      if length missing > 0 then
        Inl (Error (''Missing required workout fields: '' @ joinWith '', '' missing))
      else if \<not> isNumber (getProp workout ''targetWeight'')
              \<or> leZero (numberValue (getProp workout ''targetWeight'')) then
        Inl (Error ''Target weight must be a positive number'')
      else if \<not> isNumber (getProp workout ''actualWeight'')
              \<or> leZero (numberValue (getProp workout ''actualWeight'')) then
        Inl (Error ''Actual weight must be a positive number'')
      else if getProp workout ''unit'' \<notin> set [JStr ''lbs'', JStr ''kg''] then
        Inl (Error ''Unit must be either "lbs" or "kg"'')
      else if \<not> isNumber (getProp workout ''sets'')
              \<or> leZero (numberValue (getProp workout ''sets'')) then
        Inl (Error ''Sets must be a positive number'')
      else if \<not> isNumber (getProp workout ''reps'')
              \<or> leZero (numberValue (getProp workout ''reps'')) then
        Inl (Error ''Reps must be a positive number'')
      else Inr True)\<close>

subsection \<open>DataTransformers.normalizeWorkout\<close>

text \<open>
  The second argument of normalizeWorkout is a \<^verbatim>\<open>Set\<close> of identifiers when the caller
  passes one or nothing (the default is the empty set). \<^verbatim>\<open>workouts.map(normalizeWorkout)\<close>
  passes the array index instead, a value without a \<^verbatim>\<open>has\<close> method.
\<close>

datatype idsArg = IdSet "string set" | NotASet

definition generateWorkoutIdFor ::
  "'a world_scheme \<Rightarrow> idsArg \<Rightarrow> (error + string) \<times> 'a world_scheme" where
  "generateWorkoutIdFor w existingIds =
     (case existingIds of
        IdSet ids \<Rightarrow> (let (newId, w1) = generateWorkoutId w ids in (Inr newId, w1))
      | NotASet \<Rightarrow>
          (let (newId, w1) = generateUniqueId w
           in (Inl (TypeError ''existingIds.has is not a function''), w1)))"

text \<open>
  The identifier of the normalised record: generated when the incoming one is missing or
  not valid, upgraded (which generates as well) when it is a legacy numeric one, kept
  otherwise. The module is the one \<^verbatim>\<open>require('../utils/idGenerator.js')\<close> returns.
\<close>

definition normalizedId ::
  "'a world_scheme \<Rightarrow> jsval \<Rightarrow> idsArg \<Rightarrow> (error + jsval) \<times> 'a world_scheme" where
  "normalizedId w workoutId existingIds =
     (if \<not> truthy workoutId \<or> \<not> isValidWorkoutId workoutId then
        (case generateWorkoutIdFor w existingIds of
           (Inl e, w1) \<Rightarrow> (Inl e, w1)
         | (Inr newId, w1) \<Rightarrow> (Inr (JStr newId), w1))
      else if (case workoutId of JStr s \<Rightarrow> numericPattern s | _ \<Rightarrow> False) then
        (case generateWorkoutIdFor w existingIds of
           (Inl e, w1) \<Rightarrow> (Inl e, w1)
         | (Inr newId, w1) \<Rightarrow> (Inr (JStr newId), w1))
      else (Inr workoutId, w))"

definition isoDatePart :: "string \<Rightarrow> string" where
  \<comment> \<open>\<^verbatim>\<open>s.split('T')[0]\<close>\<close>
  "isoDatePart s = takeWhile (\<lambda>c. c \<noteq> CHR ''T'') s"

text \<open>
  The four \<^verbatim>\<open>Number(...)\<close> conversions of the object literal, in its order; the first
  that throws ends the call.
\<close>

definition convertNumbers :: "host \<Rightarrow> jsval \<Rightarrow> error + (jsnum \<times> jsnum \<times> jsnum \<times> jsnum)" where
  "convertNumbers h workout =
     (case js_Number h (getProp workout ''targetWeight'') of
        Inl e \<Rightarrow> Inl e
      | Inr targetW \<Rightarrow>
     (case js_Number h (getProp workout ''actualWeight'') of
        Inl e \<Rightarrow> Inl e
      | Inr actualW \<Rightarrow>
     (case js_Number h (getProp workout ''sets'') of
        Inl e \<Rightarrow> Inl e
      | Inr nSets \<Rightarrow>
     (case js_Number h (getProp workout ''reps'') of
        Inl e \<Rightarrow> Inl e
      | Inr nReps \<Rightarrow> Inr (targetW, actualW, nSets, nReps)))))"

definition normalizeWorkout ::
  "host \<Rightarrow> 'a world_scheme \<Rightarrow> jsval \<Rightarrow> idsArg \<Rightarrow> (error + jsval) \<times> 'a world_scheme" where
  "normalizeWorkout h w workout existingIds =
     (if isNullish workout then (Inl (TypeError ''Cannot read properties of null or undefined''), w)
      else
        case normalizedId w (getProp workout ''id'') existingIds of
          (Inl e, w1) \<Rightarrow> (Inl e, w1)
        | (Inr workoutId, w1) \<Rightarrow>
            let (date, w2) =
                  (if truthy (getProp workout ''date'') then (getProp workout ''date'', w1)
                   else let (iso, w') = toISOString_now w1 in (JStr (isoDatePart iso), w'))
            in
            case convertNumbers h workout of
              Inl e \<Rightarrow> (Inl e, w2)
            | Inr (targetW, actualW, nSets, nReps) \<Rightarrow>
                let (createdAt, w3) =
                      (if truthy (getProp workout ''createdAt'') then (getProp workout ''createdAt'', w2)
                       else let (iso, w') = toISOString_now w2 in (JStr iso, w'));
                    (updatedAt, w4) = toISOString_now w3
                in (Inr (JObj
                     [(''id'', workoutId),
                      (''date'', date),
                      (''exercise'', orElse (getProp workout ''exercise'') (JStr '''')),
                      (''targetWeight'', JNum (numOr targetW 0)),
                      (''actualWeight'', JNum (numOr actualW 0)),
                      (''unit'', orElse (getProp workout ''unit'') (JStr ''lbs'')),
                      (''barbell'', orElse (getProp workout ''barbell'') (JStr ''Olympic Barbell (45 lbs)'')),
                      (''sets'', JNum (numOr nSets 1)),
                      (''reps'', JNum (numOr nReps 1)),
                      (''completed'', JBool (truthy (getProp workout ''completed''))),
                      (''notes'', orElse (getProp workout ''notes'') (JStr '''')),
                      (''createdAt'', createdAt),
                      (''updatedAt'', JStr updatedAt)]), w4))"

section \<open>Derived notions used in the statements\<close>

text \<open>
  The object normalizeWorkout builds, given the identifier, the date, the four converted
  numbers and the two time stamps it settled on.
\<close>

definition workoutObject ::
  "jsval \<Rightarrow> jsval \<Rightarrow> jsval \<Rightarrow> jsnum \<Rightarrow> jsnum \<Rightarrow> jsnum \<Rightarrow> jsnum \<Rightarrow> jsval \<Rightarrow> string \<Rightarrow> jsval" where
  "workoutObject workout workoutId date targetW actualW nSets nReps createdAt updatedAt =
     JObj
       [(''id'', workoutId),
        (''date'', date),
        (''exercise'', orElse (getProp workout ''exercise'') (JStr '''')),
        (''targetWeight'', JNum (numOr targetW 0)),
        (''actualWeight'', JNum (numOr actualW 0)),
        (''unit'', orElse (getProp workout ''unit'') (JStr ''lbs'')),
        (''barbell'', orElse (getProp workout ''barbell'') (JStr ''Olympic Barbell (45 lbs)'')),
        (''sets'', JNum (numOr nSets 1)),
        (''reps'', JNum (numOr nReps 1)),
        (''completed'', JBool (truthy (getProp workout ''completed''))),
        (''notes'', orElse (getProp workout ''notes'') (JStr '''')),
        (''createdAt'', createdAt),
        (''updatedAt'', JStr updatedAt)]"

definition positive :: "jsnum \<Rightarrow> bool" where
  "positive n = (case n of NaN \<Rightarrow> False | Fin r \<Rightarrow> 0 < r | PosInf \<Rightarrow> True | NegInf \<Rightarrow> False)"

definition negative :: "jsnum \<Rightarrow> bool" where
  "negative n = (case n of NaN \<Rightarrow> False | Fin r \<Rightarrow> r < 0 | PosInf \<Rightarrow> False | NegInf \<Rightarrow> True)"

text \<open>
  A raw record whose four numeric fields \<^verbatim>\<open>Number\<close> can convert, and the number a
  convertible value gives.
\<close>

definition convertible :: "jsval \<Rightarrow> bool" where
  "convertible raw =
     (\<not> toPrimitiveThrows (getProp raw ''targetWeight'')
      \<and> \<not> toPrimitiveThrows (getProp raw ''actualWeight'')
      \<and> \<not> toPrimitiveThrows (getProp raw ''sets'')
      \<and> \<not> toPrimitiveThrows (getProp raw ''reps''))"

definition coerced :: "host \<Rightarrow> jsval \<Rightarrow> jsnum" where
  "coerced h v = (case js_Number h v of Inl e \<Rightarrow> NaN | Inr n \<Rightarrow> n)"

text \<open>
  The raw records that validate once normalised: both weights coerce to a number above
  zero, the unit is absent (or otherwise falsy) or one of the two allowed strings, and
  neither sets nor reps coerces to a number below zero.
\<close>

definition normalizesToValid :: "host \<Rightarrow> jsval \<Rightarrow> bool" where
  "normalizesToValid h raw =
     (positive (coerced h (getProp raw ''targetWeight''))
      \<and> positive (coerced h (getProp raw ''actualWeight''))
      \<and> (if truthy (getProp raw ''unit'')
           then getProp raw ''unit'' = JStr ''lbs'' \<or> getProp raw ''unit'' = JStr ''kg''
           else True)
      \<and> \<not> negative (coerced h (getProp raw ''sets''))
      \<and> \<not> negative (coerced h (getProp raw ''reps'')))"

section \<open>Example inputs\<close>

text \<open>
  A world in which every call falls into the same millisecond, the page has been open
  for 1000.5 ms, and the \<open>k\<close>-th random draw is \<open>0.k3f7c9ab\<close> in base 16 (\<open>k\<close> taken
  modulo 16); and a set holding the identifiers the first eleven draws lead to.
\<close>

definition busyWorld :: world where
  "busyWorld =
     \<lparr> dateNow = (\<lambda>_. 1703891234567), dateCalls = 0,
       mathRandom = (\<lambda>k. [k mod 16, 3, 15, 7, 12, 9, 10, 11]), randomCalls = 0,
       perfNow = (\<lambda>_. 2001 / 2), perfCalls = 0,
       isoNow = (\<lambda>_. ''2023-12-29T23:07:14.567Z''), isoCalls = 0 \<rparr>"

definition takenIds :: "string set" where
  "takenIds =
     {''1703891234567_03f7c9'', ''1703891234567_13f7c9'', ''1703891234567_23f7c9'',
      ''1703891234567_33f7c9'', ''1703891234567_43f7c9'', ''1703891234567_53f7c9'',
      ''1703891234567_63f7c9'', ''1703891234567_73f7c9'', ''1703891234567_83f7c9'',
      ''1703891234567_93f7c9'', ''1703891234567_a3f7c9''}"

definition plainHost :: host where
  "plainHost =
     \<lparr> numberOfString = (\<lambda>_. NaN), stringOfNumber = (\<lambda>_. ''NaN''), dateOf = (\<lambda>_. NaN) \<rparr>"

text \<open>Normalising a raw record and then its result, in the world the first call leaves.\<close>

definition normalizeTwice ::
  "host \<Rightarrow> 'a world_scheme \<Rightarrow> jsval \<Rightarrow> string set \<Rightarrow> string set \<Rightarrow> (jsval \<times> jsval) option" where
  "normalizeTwice h w raw ids ids' =
     (case normalizeWorkout h w raw (IdSet ids) of
        (Inl e, w1) \<Rightarrow> None
      | (Inr r1, w1) \<Rightarrow>
          (case normalizeWorkout h w1 r1 (IdSet ids') of
             (Inl e, w2) \<Rightarrow> None
           | (Inr r2, w2) \<Rightarrow> Some (r1, r2)))"

section \<open>The key-value store (localStorage)\<close>

text \<open>
  A stored item is a text. It is given by what \<^verbatim>\<open>JSON.parse\<close> makes of it: the parsed
  value, a syntax error for a non-empty text that is not JSON, or the empty text.
\<close>

datatype item = Json jsval | Malformed | EmptyText

text \<open>
  The store extends the world: the items by key, and the capacity, as the predicate that
  tells whether the browser accepts a new content (\<^verbatim>\<open>setItem\<close> raises
  \<^verbatim>\<open>QuotaExceededError\<close> otherwise).
\<close>

record state = world +
  localStorage :: "string \<rightharpoonup> item"
  storageFits :: "(string \<rightharpoonup> item) \<Rightarrow> bool"

definition localStorage_setItem :: "state \<Rightarrow> string \<Rightarrow> item \<Rightarrow> (error + unit) \<times> state" where
  "localStorage_setItem st key text =
     (let content = (localStorage st)(key \<mapsto> text) in
      if storageFits st content then (Inr (), st\<lparr>localStorage := content\<rparr>)
      else (Inl QuotaExceededError, st))"


text \<open>
  \<^verbatim>\<open>JSON.stringify\<close> followed by \<^verbatim>\<open>JSON.parse\<close>: a number that is not finite becomes
  \<open>null\<close>, an \<open>undefined\<close> array element becomes \<open>null\<close>, an \<open>undefined\<close> property is left
  out. \<^verbatim>\<open>JSON.stringify(undefined)\<close> is \<open>undefined\<close>, which \<^verbatim>\<open>setItem\<close> stores as the text
  \<^verbatim>\<open>undefined\<close>, not JSON.
\<close>

fun jsonify :: "jsval \<Rightarrow> jsval" where
  "jsonify (JNum n) = (case n of Fin r \<Rightarrow> JNum (Fin r) | _ \<Rightarrow> JNull)"
| "jsonify (JArr xs) = JArr (map (\<lambda>x. if x = JUndefined then JNull else jsonify x) xs)"
| "jsonify (JObj fs) =
     JObj (map (\<lambda>kv. (fst kv, jsonify (snd kv))) (filter (\<lambda>kv. snd kv \<noteq> JUndefined) fs))"
| "jsonify v = v"

definition JSON_stringify :: "jsval \<Rightarrow> item" where
  "JSON_stringify v = (if v = JUndefined then Malformed else Json (jsonify v))"

subsection \<open>Objects\<close>

text \<open>
  The own enumerable properties an object spread copies: the entries of an object, the
  indexed elements of an array, the indexed characters of a string, nothing for any
  other value.
\<close>

definition indexed :: "'a list \<Rightarrow> (string \<times> 'a) list" where
  "indexed xs = zip (map showNat [0 ..< length xs]) xs"

definition ownEntries :: "jsval \<Rightarrow> (string \<times> jsval) list" where
  "ownEntries v =
     (case v of
        JObj fs \<Rightarrow> fs
      | JArr xs \<Rightarrow> indexed xs
      | JStr s \<Rightarrow> indexed (map (\<lambda>c. JStr [c]) s)
      | _ \<Rightarrow> [])"

definition setProp :: "(string \<times> jsval) list \<Rightarrow> string \<Rightarrow> jsval \<Rightarrow> (string \<times> jsval) list" where
  "setProp fs k v = AList.update k v fs"

definition spread :: "(string \<times> jsval) list \<Rightarrow> jsval \<Rightarrow> (string \<times> jsval) list" where
  \<comment> \<open>\<^verbatim>\<open>{...fs, ...v}\<close>\<close>
  "spread fs v = fold (\<lambda>kv acc. setProp acc (fst kv) (snd kv)) (ownEntries v) fs"

definition isObjectType :: "jsval \<Rightarrow> bool" where
  \<comment> \<open>\<^verbatim>\<open>typeof v === 'object'\<close>\<close>
  "isObjectType v = (case v of JNull \<Rightarrow> True | JArr _ \<Rightarrow> True | JObj _ \<Rightarrow> True | _ \<Rightarrow> False)"

section \<open>LocalStorageService (services/localStorageService.js)\<close>

definition DATA_SCHEMA_VERSION :: string where
  "DATA_SCHEMA_VERSION = ''1.0.0''"

definition WORKOUT_HISTORY :: string where
  "WORKOUT_HISTORY = ''weightCalculator_workoutHistory''"

definition USER_PREFERENCES :: string where
  "USER_PREFERENCES = ''weightCalculator_preferences''"

definition APP_SETTINGS :: string where
  "APP_SETTINGS = ''weightCalculator_settings''"

definition DATA_VERSION :: string where
  "DATA_VERSION = ''weightCalculator_dataVersion''"

definition DEFAULT_PREFERENCES :: "(string \<times> jsval) list" where
  "DEFAULT_PREFERENCES =
     [(''unit'', JStr ''lbs''),
      (''theme'', JStr ''light''),
      (''defaultBarbell'',
         JObj [(''weight'', JNum (Fin 45)), (''label'', JStr ''Olympic Barbell (45 lbs)'')]),
      (''autoSave'', JBool True),
      (''showNotifications'', JBool True)]"

definition DEFAULT_SETTINGS :: "(string \<times> jsval) list" where
  "DEFAULT_SETTINGS =
     [(''dataVersion'', JStr DATA_SCHEMA_VERSION),
      (''lastBackup'', JNull),
      (''totalWorkouts'', JNum (Fin 0)),
      (''firstUse'', JNull)]"

definition createDefaultSettings :: "state \<Rightarrow> jsval \<times> state" where
  "createDefaultSettings st =
     (let (iso, st1) = toISOString_now st in
      (JObj [(''dataVersion'', JStr DATA_SCHEMA_VERSION),
             (''lastBackup'', JNull),
             (''totalWorkouts'', JNum (Fin 0)),
             (''firstUse'', JStr iso)], st1))"

text \<open>
  The service instance: whether the constructor found localStorage usable, and the user
  the keys are scoped to (\<open>None\<close> for \<open>null\<close>).
\<close>

record service =
  isAvailable :: bool
  userId :: "string option"

definition getUserScopedKey :: "service \<Rightarrow> string \<Rightarrow> string" where
  "getUserScopedKey svc key =
     (case userId svc of
        None \<Rightarrow> key
      | Some u \<Rightarrow> if u = [] then key else key @ ''_user_'' @ u)"

definition getItem :: "service \<Rightarrow> state \<Rightarrow> string \<Rightarrow> jsval \<Rightarrow> jsval" where
  "getItem svc st key defaultValue =
     (if \<not> isAvailable svc then defaultValue
      else
        case localStorage st (getUserScopedKey svc key) of
          None \<Rightarrow> defaultValue
        | Some EmptyText \<Rightarrow> defaultValue
        | Some Malformed \<Rightarrow> defaultValue
        | Some (Json v) \<Rightarrow> v)"

definition setItem :: "service \<Rightarrow> state \<Rightarrow> string \<Rightarrow> jsval \<Rightarrow> (error + bool) \<times> state" where
  "setItem svc st key v =
     (if \<not> isAvailable svc then (Inl (Error ''localStorage is not available''), st)
      else
        case localStorage_setItem st (getUserScopedKey svc key) (JSON_stringify v) of
          (Inr _, st1) \<Rightarrow> (Inr True, st1)
        | (Inl QuotaExceededError, st1) \<Rightarrow>
            (Inl (Error ''Storage quota exceeded. Please clear some data or export your workouts.''), st1)
        | (Inl e, st1) \<Rightarrow> (Inl e, st1))"


subsection \<open>Workout history\<close>

text \<open>\<^verbatim>\<open>new Set(values.filter(Boolean))\<close>, restricted to its strings: only they can equal an id.\<close>

definition stringIds :: "jsval list \<Rightarrow> string set" where
  "stringIds vs = set (concat (map (\<lambda>v. case v of JStr s \<Rightarrow> (if s = [] then [] else [s]) | _ \<Rightarrow> []) vs))"

definition addId :: "jsval \<Rightarrow> string set \<Rightarrow> string set" where
  "addId v ids = (case v of JStr s \<Rightarrow> insert s ids | _ \<Rightarrow> ids)"

text \<open>
  The loop of getWorkoutHistory: a record that cannot be normalised or does not validate
  is skipped (the \<^verbatim>\<open>catch\<close> only logs), a valid one is kept and its id joins the set.
\<close>

fun historyLoop :: "host \<Rightarrow> state \<Rightarrow> jsval list \<Rightarrow> string set \<Rightarrow> jsval list \<times> state" where
  "historyLoop h st [] existingIds = ([], st)"
| "historyLoop h st (workout # rest) existingIds =
     (case normalizeWorkout h st workout (IdSet existingIds) of
        (Inl e, st1) \<Rightarrow> historyLoop h st1 rest existingIds
      | (Inr normalized, st1) \<Rightarrow>
          (case DataValidators_workout normalized of
             Inl e \<Rightarrow> historyLoop h st1 rest existingIds
           | Inr ok \<Rightarrow>
               let (normalizedWorkouts, st2) =
                     historyLoop h st1 rest (addId (getProp normalized ''id'') existingIds)
               in (normalized # normalizedWorkouts, st2)))"

definition getWorkoutHistory :: "service \<Rightarrow> host \<Rightarrow> state \<Rightarrow> (error + jsval list) \<times> state" where
  "getWorkoutHistory svc h st =
     (case getItem svc st WORKOUT_HISTORY (JArr []) of
        JArr workouts \<Rightarrow>
          if list_ex isNullish workouts
          then (Inl (TypeError ''Cannot read properties of null or undefined''), st)
          else
            let existingIds = stringIds (map (\<lambda>w. getProp w ''id'') workouts);
                (normalizedWorkouts, st1) = historyLoop h st workouts existingIds
            in (Inr normalizedWorkouts, st1)
      | _ \<Rightarrow> (Inl (TypeError ''workouts.map is not a function''), st))"

subsection \<open>Preferences\<close>

definition DataValidators_preferences :: "jsval \<Rightarrow> error + bool" where
  \<open>DataValidators_preferences preferences =
     (if isNullish preferences then Inl (TypeError ''Cannot read properties of null or undefined'')
      else if truthy (getProp preferences ''unit'')
              \<and> getProp preferences ''unit'' \<notin> set [JStr ''lbs'', JStr ''kg''] then
        Inl (Error ''Unit preference must be either "lbs" or "kg"'')
      else if truthy (getProp preferences ''theme'')
              \<and> getProp preferences ''theme'' \<notin> set [JStr ''light'', JStr ''dark''] then
        Inl (Error ''Theme preference must be either "light" or "dark"'')
      else Inr True)\<close>

definition getPreferences :: "service \<Rightarrow> state \<Rightarrow> jsval" where
  "getPreferences svc st =
     (let preferences = getItem svc st USER_PREFERENCES (JObj DEFAULT_PREFERENCES) in
      case DataValidators_preferences preferences of
        Inl e \<Rightarrow> JObj DEFAULT_PREFERENCES
      | Inr ok \<Rightarrow> JObj (spread DEFAULT_PREFERENCES preferences))"

definition savePreferences :: "service \<Rightarrow> state \<Rightarrow> jsval \<Rightarrow> (error + jsval) \<times> state" where
  "savePreferences svc st preferences =
     (let merged = JObj (spread DEFAULT_PREFERENCES preferences) in
      case DataValidators_preferences merged of
        Inl e \<Rightarrow> (Inl e, st)
      | Inr ok \<Rightarrow>
          (case setItem svc st USER_PREFERENCES merged of
             (Inl e, st1) \<Rightarrow> (Inl e, st1)
           | (Inr done, st1) \<Rightarrow> (Inr merged, st1)))"

subsection \<open>Settings\<close>

text \<open>
  saveSettings merges over the stored settings; \<open>firstUse\<close> is the stored one when there
  is one, else the incoming one, else the current time.
\<close>

definition saveSettings :: "service \<Rightarrow> state \<Rightarrow> jsval \<Rightarrow> (error + jsval) \<times> state" where
  "saveSettings svc st settings =
     (let currentSettings = getItem svc st APP_SETTINGS JNull;
          spreadAll = spread (spread DEFAULT_SETTINGS currentSettings) settings;
          storedFirstUse =
            (if isNullish currentSettings then JUndefined else getProp currentSettings ''firstUse'')
      in
        if \<not> truthy storedFirstUse \<and> isNullish settings
        then (Inl (TypeError ''Cannot read properties of null or undefined''), st)
        else
          let (firstUse, st1) =
                (if truthy storedFirstUse then (storedFirstUse, st)
                 else if truthy (getProp settings ''firstUse'') then (getProp settings ''firstUse'', st)
                 else let (iso, st') = toISOString_now st in (JStr iso, st'));
              merged = JObj (setProp spreadAll ''firstUse'' firstUse)
          in case setItem svc st1 APP_SETTINGS merged of
               (Inl e, st2) \<Rightarrow> (Inl e, st2)
             | (Inr done, st2) \<Rightarrow> (Inr merged, st2))"

definition getSettings :: "service \<Rightarrow> state \<Rightarrow> (error + jsval) \<times> state" where
  "getSettings svc st =
     (let settings = getItem svc st APP_SETTINGS JNull in
      if \<not> truthy settings then
        let (newSettings, st1) = createDefaultSettings st in
        case saveSettings svc st1 newSettings of
          (Inl e, st2) \<Rightarrow> (Inl e, st2)
        | (Inr saved, st2) \<Rightarrow> (Inr newSettings, st2)
      else (Inr (JObj (spread DEFAULT_SETTINGS settings)), st))"

subsection \<open>Import\<close>

text \<open>
  \<^verbatim>\<open>xs.sort((a, b) => new Date(b.key) - new Date(a.key))\<close> on a list of objects. The
  comparator builds both dates before it subtracts, and every element of a list of two
  or more is compared at least once, so a date that cannot be converted to a primitive
  ends the sort with a TypeError. Otherwise the sort is stable: it is written as an
  insertion sort, where an element moves behind another one when the comparator is above
  zero (\<open>NaN\<close> counts as zero). For a comparator that is not a consistent order the
  engine may choose another permutation.
\<close>

definition compareTimeDesc :: "host \<Rightarrow> string \<Rightarrow> jsval \<Rightarrow> jsval \<Rightarrow> jsnum" where
  "compareTimeDesc h key a b = numSub (dateOf h (getProp b key)) (dateOf h (getProp a key))"

fun insertSorted :: "(jsval \<Rightarrow> jsval \<Rightarrow> jsnum) \<Rightarrow> jsval \<Rightarrow> jsval list \<Rightarrow> jsval list" where
  "insertSorted cmp x [] = [x]"
| "insertSorted cmp x (y # ys) =
     (if positive (cmp x y) then y # insertSorted cmp x ys else x # y # ys)"

definition sortWith :: "(jsval \<Rightarrow> jsval \<Rightarrow> jsnum) \<Rightarrow> jsval list \<Rightarrow> jsval list" where
  "sortWith cmp xs = foldr (insertSorted cmp) xs []"

definition sortByTimeDesc :: "host \<Rightarrow> string \<Rightarrow> jsval list \<Rightarrow> error + jsval list" where
  "sortByTimeDesc h key xs =
     (if 2 \<le> length xs \<and> list_ex (\<lambda>x. toPrimitiveThrows (getProp x key)) xs
      then Inl (TypeError ''Cannot convert object to primitive value'')
      else Inr (sortWith (compareTimeDesc h key) xs))"

definition isArray :: "jsval \<Rightarrow> bool" where
  "isArray v = (case v of JArr _ \<Rightarrow> True | _ \<Rightarrow> False)"

definition elements :: "jsval \<Rightarrow> jsval list" where
  "elements v = (case v of JArr xs \<Rightarrow> xs | _ \<Rightarrow> [])"

text \<open>
  The loop over the incoming records: a record that fails to normalise or validate is
  skipped, one whose normalised id is already in the set is skipped as a duplicate.
\<close>

fun importLoop :: "host \<Rightarrow> state \<Rightarrow> jsval list \<Rightarrow> string set \<Rightarrow> jsval list \<times> state" where
  "importLoop h st [] existingIds = ([], st)"
| "importLoop h st (workout # rest) existingIds =
     (case normalizeWorkout h st workout (IdSet existingIds) of
        (Inl e, st1) \<Rightarrow> importLoop h st1 rest existingIds
      | (Inr normalized, st1) \<Rightarrow>
          (case DataValidators_workout normalized of
             Inl e \<Rightarrow> importLoop h st1 rest existingIds
           | Inr ok \<Rightarrow>
               if (case getProp normalized ''id'' of JStr s \<Rightarrow> s \<in> existingIds | _ \<Rightarrow> False)
               then importLoop h st1 rest existingIds
               else
                 let (validWorkouts, st2) =
                       importLoop h st1 rest (addId (getProp normalized ''id'') existingIds)
                 in (normalized # validWorkouts, st2)))"

definition allStringIds :: "jsval list \<Rightarrow> string set" where
  \<comment> \<open>\<^verbatim>\<open>new Set(values)\<close>, restricted to its strings\<close>
  "allStringIds vs = set (concat (map (\<lambda>v. case v of JStr s \<Rightarrow> [s] | _ \<Rightarrow> []) vs))"

definition importWorkouts :: "service \<Rightarrow> host \<Rightarrow> state \<Rightarrow> jsval \<Rightarrow> (error + unit) \<times> state" where
  "importWorkouts svc h st dat =
     (if truthy (getProp dat ''workouts'') \<and> isArray (getProp dat ''workouts'') then
        case getWorkoutHistory svc h st of
          (Inl e, st1) \<Rightarrow> (Inl e, st1)
        | (Inr existingWorkouts, st1) \<Rightarrow>
            let existingIds = allStringIds (map (\<lambda>w. getProp w ''id'') existingWorkouts);
                (validWorkouts, st2) =
                  importLoop h st1 (elements (getProp dat ''workouts'')) existingIds
            in (case sortByTimeDesc h ''date'' (existingWorkouts @ validWorkouts) of
                  Inl e \<Rightarrow> (Inl e, st2)
                | Inr mergedWorkouts \<Rightarrow>
                    (case setItem svc st2 WORKOUT_HISTORY (JArr mergedWorkouts) of
                       (Inl e, st3) \<Rightarrow> (Inl e, st3)
                     | (Inr done, st3) \<Rightarrow> (Inr (), st3)))
      else (Inr (), st))"

definition importPreferences :: "service \<Rightarrow> state \<Rightarrow> jsval \<Rightarrow> state" where
  "importPreferences svc st dat =
     (if truthy (getProp dat ''preferences'')
      then snd (savePreferences svc st (getProp dat ''preferences''))
      else st)"

definition importSettings :: "service \<Rightarrow> host \<Rightarrow> state \<Rightarrow> jsval \<Rightarrow> (error + bool) \<times> state" where
  "importSettings svc h st dat =
     (case getWorkoutHistory svc h st of
        (Inl e, st1) \<Rightarrow> (Inl e, st1)
      | (Inr finalWorkouts, st1) \<Rightarrow>
          (case getSettings svc st1 of
             (Inl e, st2) \<Rightarrow> (Inl e, st2)
           | (Inr currentSettings, st2) \<Rightarrow>
               let total = JNum (Fin (of_nat (length finalWorkouts))) in
               if truthy (getProp dat ''settings'') then
                 (Inr True,
                  snd (saveSettings svc st2
                         (JObj (setProp (spread [] (getProp dat ''settings'')) ''totalWorkouts'' total))))
               else
                 (case saveSettings svc st2
                         (JObj (setProp (spread [] currentSettings) ''totalWorkouts'' total)) of
                    (Inl e, st3) \<Rightarrow> (Inl e, st3)
                  | (Inr saved, st3) \<Rightarrow> (Inr True, st3))))"

definition importData :: "service \<Rightarrow> host \<Rightarrow> state \<Rightarrow> jsval \<Rightarrow> (error + bool) \<times> state" where
  "importData svc h st dat =
     (if \<not> truthy dat \<or> \<not> isObjectType dat then
        (Inl (Error ''Invalid import data format''), st)
      else if \<not> truthy (getProp dat ''version'') then
        (Inl (Error ''Import data missing version information''), st)
      else
        case importWorkouts svc h st dat of
          (Inl e, st1) \<Rightarrow> (Inl e, st1)
        | (Inr done, st1) \<Rightarrow> importSettings svc h (importPreferences svc st1 dat) dat)"


subsection \<open>Export\<close>

text \<open>\<^verbatim>\<open>Math.min\<close> and \<^verbatim>\<open>Math.max\<close> of two numbers.\<close>

definition numMin :: "jsnum \<Rightarrow> jsnum \<Rightarrow> jsnum" where
  "numMin a b = (if a = NaN \<or> b = NaN then NaN else if numLt b a then b else a)"

definition numMax :: "jsnum \<Rightarrow> jsnum \<Rightarrow> jsnum" where
  "numMax a b = (if a = NaN \<or> b = NaN then NaN else if numLt a b then b else a)"

text \<open>\<^verbatim>\<open>workouts.map(DataTransformers.normalizeWorkout)\<close>: the second argument is the index.\<close>

fun mapNormalize :: "host \<Rightarrow> state \<Rightarrow> jsval list \<Rightarrow> (error + jsval list) \<times> state" where
  "mapNormalize h st [] = (Inr [], st)"
| "mapNormalize h st (workout # rest) =
     (case normalizeWorkout h st workout NotASet of
        (Inl e, st1) \<Rightarrow> (Inl e, st1)
      | (Inr normalized, st1) \<Rightarrow>
          (case mapNormalize h st1 rest of
             (Inl e, st2) \<Rightarrow> (Inl e, st2)
           | (Inr others, st2) \<Rightarrow> (Inr (normalized # others), st2)))"

text \<open>\<^verbatim>\<open>workouts.map(w => new Date(w.date).getTime())\<close> on a list of objects.\<close>

definition timesOf :: "host \<Rightarrow> jsval list \<Rightarrow> error + jsnum list" where
  "timesOf h workouts =
     (if list_ex (\<lambda>w. toPrimitiveThrows (getProp w ''date'')) workouts
      then Inl (TypeError ''Cannot convert object to primitive value'')
      else Inr (map (\<lambda>w. dateOf h (getProp w ''date'')) workouts))"

definition prepareExportData ::
  "host \<Rightarrow> state \<Rightarrow> jsval list \<Rightarrow> jsval \<Rightarrow> jsval \<Rightarrow> (error + jsval) \<times> state" where
  "prepareExportData h st workouts preferences settings =
     (let (exportDate, st1) = toISOString_now st in
      case mapNormalize h st1 workouts of
        (Inl e, st2) \<Rightarrow> (Inl e, st2)
      | (Inr normalized, st2) \<Rightarrow>
          (case timesOf h workouts of
             Inl e \<Rightarrow> (Inl e, st2)
           | Inr stamps \<Rightarrow>
               let dateRange =
                     (if length workouts > 0
                      then JObj [(''earliest'', JNum (fold numMin stamps PosInf)),
                                 (''latest'', JNum (fold numMax stamps NegInf))]
                      else JNull)
               in (Inr (JObj
                    [(''version'', JStr DATA_SCHEMA_VERSION),
                     (''exportDate'', JStr exportDate),
                     (''workouts'', JArr normalized),
                     (''preferences'', JObj (spread DEFAULT_PREFERENCES preferences)),
                     (''settings'', JObj (spread DEFAULT_SETTINGS settings)),
                     (''metadata'',
                        JObj [(''totalWorkouts'', JNum (Fin (of_nat (length workouts)))),
                              (''dateRange'', dateRange)])]), st2)))"

text \<open>
  exportData starts the three reads in order (none of them suspends before its work on
  the store is done) and fails with the first failure among them.
\<close>

definition exportData :: "service \<Rightarrow> host \<Rightarrow> state \<Rightarrow> (error + jsval) \<times> state" where
  "exportData svc h st =
     (let (workouts, st1) = getWorkoutHistory svc h st;
          preferences = getPreferences svc st1;
          (settings, st2) = getSettings svc st1
      in case workouts of
           Inl e \<Rightarrow> (Inl e, st2)
         | Inr ws \<Rightarrow>
             (case settings of
                Inl e \<Rightarrow> (Inl e, st2)
              | Inr s \<Rightarrow> prepareExportData h st2 ws preferences s))"

text \<open>
  The number of stored workout records, and that number after \<^verbatim>\<open>importData(exportData())\<close>
  (\<open>None\<close> when one of the two calls throws).
\<close>

definition storedWorkoutCount :: "service \<Rightarrow> state \<Rightarrow> nat" where
  "storedWorkoutCount svc st = length (elements (getItem svc st WORKOUT_HISTORY (JArr [])))"

definition roundTripCount :: "service \<Rightarrow> host \<Rightarrow> state \<Rightarrow> nat option" where
  "roundTripCount svc h st =
     (case exportData svc h st of
        (Inl e, st1) \<Rightarrow> None
      | (Inr bundle, st1) \<Rightarrow>
          (case importData svc h st1 bundle of
             (Inl e, st2) \<Rightarrow> None
           | (Inr ok, st2) \<Rightarrow> Some (storedWorkoutCount svc st2)))"


subsection \<open>Legacy data\<close>

definition nonEmptyText :: "item option \<Rightarrow> bool" where
  \<comment> \<open>the truthiness of what \<^verbatim>\<open>localStorage.getItem\<close> returns\<close>
  "nonEmptyText i = (case i of None \<Rightarrow> False | Some EmptyText \<Rightarrow> False | Some _ \<Rightarrow> True)"




definition hasLegacyData :: "service \<Rightarrow> state \<Rightarrow> bool" where
  "hasLegacyData svc st =
     (if \<not> isAvailable svc then False
      else nonEmptyText (localStorage st WORKOUT_HISTORY)
           \<or> nonEmptyText (localStorage st USER_PREFERENCES)
           \<or> nonEmptyText (localStorage st APP_SETTINGS))"

section \<open>DataServiceFactory (services/dataServiceFactory.js)\<close>

record serviceFactory =
  currentService :: "service option"
  serviceType :: "string option"
  currentUserId :: "string option"


definition factory_hasLegacyData :: "serviceFactory \<Rightarrow> state \<Rightarrow> bool" where
  "factory_hasLegacyData fac st =
     (case currentService fac of None \<Rightarrow> False | Some svc \<Rightarrow> hasLegacyData svc st)"

section \<open>Notions about the store used in the statements\<close>




text \<open>
  A service on an available localStorage without user scope, and an empty store of
  unbounded capacity in the world above.
\<close>

definition plainService :: service where
  "plainService = \<lparr> isAvailable = True, userId = None \<rparr>"

definition emptyStore :: state where
  "emptyStore = world.extend busyWorld
     (state.fields Map.empty (\<lambda>content. True))"





text \<open>
  A store whose history holds one record saved without an identifier, with settings in
  place.
\<close>

definition squatWithoutId :: jsval where
  "squatWithoutId =
     JObj [(''date'', JStr ''2023-12-01''),
           (''exercise'', JStr ''Squat''),
           (''targetWeight'', JNum (Fin 100)),
           (''actualWeight'', JNum (Fin 100)),
           (''unit'', JStr ''kg''),
           (''sets'', JNum (Fin 3)),
           (''reps'', JNum (Fin 5)),
           (''createdAt'', JStr ''2023-12-01T10:00:00.000Z'')]"

definition storedSettings :: jsval where
  "storedSettings =
     JObj [(''dataVersion'', JStr ''1.0.0''),
           (''lastBackup'', JNull),
           (''totalWorkouts'', JNum (Fin 1)),
           (''firstUse'', JStr ''2023-12-01T09:00:00.000Z'')]"

definition storeWithoutIds :: state where
  "storeWithoutIds = world.extend busyWorld
     (state.fields
        [WORKOUT_HISTORY \<mapsto> Json (JArr [squatWithoutId]),
         APP_SETTINGS \<mapsto> Json storedSettings]
        (\<lambda>content. True))"

text \<open>A host that knows the date of that record (midnight UTC, in milliseconds).\<close>

definition calendarHost :: host where
  "calendarHost =
     \<lparr> numberOfString = (\<lambda>_. NaN), stringOfNumber = (\<lambda>_. ''NaN''),
       dateOf = (\<lambda>v. if v = JStr ''2023-12-01'' then Fin 1701388800000 else NaN) \<rparr>"

text \<open>
  That record as the history returns it under an identifier, and the bundle exportData
  makes of the store.
\<close>

definition squat :: "string \<Rightarrow> jsval" where
  "squat wid = JObj
     [(''id'', JStr wid),
      (''date'', JStr ''2023-12-01''), (''exercise'', JStr ''Squat''),
      (''targetWeight'', JNum (Fin 100)),
      (''actualWeight'', JNum (Fin 100)), (''unit'', JStr ''kg''),
      (''barbell'', JStr ''Olympic Barbell (45 lbs)''),
      (''sets'', JNum (Fin 3)), (''reps'', JNum (Fin 5)),
      (''completed'', JBool False), (''notes'', JStr []),
      (''createdAt'', JStr ''2023-12-01T10:00:00.000Z''),
      (''updatedAt'', JStr ''2023-12-29T23:07:14.567Z'')]"

definition bundle0 :: jsval where
  "bundle0 = JObj
       [(''version'', JStr ''1.0.0''),
        (''exportDate'', JStr ''2023-12-29T23:07:14.567Z''),
        (''workouts'', JArr [squat ''1703891234567_03f7c9'']),
        (''preferences'', JObj DEFAULT_PREFERENCES),
        (''settings'', storedSettings),
        (''metadata'',
         JObj
          [(''totalWorkouts'', JNum (Fin 1)),
           (''dateRange'',
            JObj [(''earliest'', JNum (Fin 1701388800000)), (''latest'', JNum (Fin 1701388800000))])])]"


section \<open>UserService (services/userService.js)\<close>

subsection \<open>Text\<close>

text \<open>
  \<^verbatim>\<open>trim\<close> and \<^verbatim>\<open>toLowerCase\<close> on the characters of this model, the code units below 256:
  the white space and line ends among them are 9 to 13, 32 and 160; the capital letters
  are \<open>A\<close> to \<open>Z\<close> and 192 to 222 without 215, each 32 below its small letter.
\<close>

definition isSpace :: "char \<Rightarrow> bool" where
  "isSpace c = (of_char c \<in> set [9, 10, 11, 12, 13, 32, 160 :: nat])"

definition trim :: "string \<Rightarrow> string" where
  "trim s = rev (dropWhile isSpace (rev (dropWhile isSpace s)))"

definition lowerChar :: "char \<Rightarrow> char" where
  "lowerChar c =
     (let n = (of_char c :: nat) in
      if (65 \<le> n \<and> n \<le> 90) \<or> (192 \<le> n \<and> n \<le> 222 \<and> n \<noteq> 215) then char_of (n + 32) else c)"

definition toLowerCase :: "string \<Rightarrow> string" where
  "toLowerCase s = map lowerChar s"

definition isNameChar :: "char \<Rightarrow> bool" where
  \<comment> \<open>the class \<^verbatim>\<open>[a-zA-Z0-9\s\-_]\<close>\<close>
  "isNameChar c =
     (let n = (of_char c :: nat) in
      (97 \<le> n \<and> n \<le> 122) \<or> (65 \<le> n \<and> n \<le> 90) \<or> (48 \<le> n \<and> n \<le> 57)
      \<or> isSpace c \<or> c = CHR ''-'' \<or> c = CHR ''_'')"

subsection \<open>Constants\<close>

definition USERS_LIST :: string where
  "USERS_LIST = ''weightCalculator_users''"

definition CURRENT_USER :: string where
  "CURRENT_USER = ''weightCalculator_currentUser''"

definition DEFAULT_USER_PREFERENCES :: "(string \<times> jsval) list" where
  "DEFAULT_USER_PREFERENCES =
     [(''unit'', JStr ''lbs''),
      (''theme'', JStr ''light''),
      (''defaultBarbell'',
         JObj [(''weight'', JNum (Fin 45)), (''label'', JStr ''Olympic Barbell (45 lbs)'')]),
      (''autoSave'', JBool True),
      (''showNotifications'', JBool True)]"

subsection \<open>Validators\<close>

definition UserValidators_name :: "jsval \<Rightarrow> error + bool" where
  "UserValidators_name name =
     (case name of
        JStr s \<Rightarrow>
          if s = [] then Inl (Error ''User name is required and must be a string'')
          else if length (trim s) < 2 then Inl (Error ''User name must be at least 2 characters long'')
          else if length (trim s) > 50 then Inl (Error ''User name must be less than 50 characters'')
          else if \<not> list_all isNameChar (trim s) then
            Inl (Error ''User name can only contain letters, numbers, spaces, hyphens, and underscores'')
          else Inr True
      | _ \<Rightarrow> Inl (Error ''User name is required and must be a string''))"

definition requiredUserFields :: "string list" where
  "requiredUserFields = [''id'', ''name'', ''createdAt'']"

definition UserValidators_user :: "jsval \<Rightarrow> error + bool" where
  "UserValidators_user user =
     (if isNullish user then Inl (TypeError ''Cannot read properties of null or undefined'')
      else
        let missing = filter (\<lambda>field. \<not> truthy (getProp user field)) requiredUserFields in
        if length missing > 0 then
          Inl (Error (''Missing required user fields: '' @ joinWith '', '' missing))
        else
          case UserValidators_name (getProp user ''name'') of
            Inl e \<Rightarrow> Inl e
          | Inr ok \<Rightarrow>
              (case getProp user ''id'' of
                 JStr s \<Rightarrow>
                   if length s < 1 then Inl (Error ''User ID must be a non-empty string'')
                   else Inr True
               | _ \<Rightarrow> Inl (Error ''User ID must be a non-empty string'')))"

subsection \<open>Transformers\<close>

text \<open>
  generateUserId draws identifiers until one is not in the set; it does not return
  (\<open>None\<close>) when the clock and the random source keep giving identifiers of the set.
\<close>

partial_function (option) generateUserId :: "string set \<Rightarrow> state \<Rightarrow> (string \<times> state) option" where
  "generateUserId existingIds st =
     (let t = Date_now st;
          r = Math_random (snd t);
          newId = ''user_'' @ showNat (fst t) @ ''_'' @ substring 2 8 (toString16 (fst r))
      in if newId \<in> existingIds then generateUserId existingIds (snd r)
         else Some (newId, snd r))"

text \<open>\<^verbatim>\<open>userData.metadata?.field\<close>.\<close>

definition optProp :: "jsval \<Rightarrow> string \<Rightarrow> jsval" where
  "optProp v k = (if isNullish v then JUndefined else getProp v k)"

text \<open>
  normalizeUser evaluates the properties of its result in order: the id (which may draw
  a new one), then the name, where \<^verbatim>\<open>trim\<close> exists only on a string.
\<close>

definition normalizeUser :: "state \<Rightarrow> jsval \<Rightarrow> string set \<Rightarrow> ((error + jsval) \<times> state) option" where
  "normalizeUser st userData existingIds =
     (let (now, st1) = toISOString_now st in
      if isNullish userData then Some (Inl (TypeError ''Cannot read properties of null or undefined''), st1)
      else
        case (if truthy (getProp userData ''id'') then Some (getProp userData ''id'', st1)
              else map_option (\<lambda>(s, st'). (JStr s, st')) (generateUserId existingIds st1)) of
          None \<Rightarrow> None
        | Some (newId, st2) \<Rightarrow>
            (case orElse (getProp userData ''name'') (JStr '''') of
               JStr s \<Rightarrow>
                 Some (Inr (JObj
                   [(''id'', newId),
                    (''name'', JStr (trim s)),
                    (''createdAt'', orElse (getProp userData ''createdAt'') (JStr now)),
                    (''lastActive'', orElse (getProp userData ''lastActive'') (JStr now)),
                    (''preferences'',
                       JObj (spread DEFAULT_USER_PREFERENCES
                               (orElse (getProp userData ''preferences'') (JObj [])))),
                    (''isActive'',
                       (if getProp userData ''isActive'' \<noteq> JUndefined
                        then getProp userData ''isActive'' else JBool True)),
                    (''metadata'',
                       JObj (spread
                         [(''totalWorkouts'',
                             orElse (optProp (getProp userData ''metadata'') ''totalWorkouts'') (JNum (Fin 0))),
                          (''firstWorkout'',
                             orElse (optProp (getProp userData ''metadata'') ''firstWorkout'') JNull),
                          (''lastWorkout'',
                             orElse (optProp (getProp userData ''metadata'') ''lastWorkout'') JNull)]
                         (getProp userData ''metadata'')))]), st2)
             | _ \<Rightarrow> Some (Inl (TypeError ''trim is not a function''), st2)))"

subsection \<open>The service\<close>

text \<open>The service instance is the flag its constructor computed: localStorage is usable.\<close>

definition user_getItem :: "bool \<Rightarrow> state \<Rightarrow> string \<Rightarrow> jsval \<Rightarrow> jsval" where
  "user_getItem available st key defaultValue =
     (if \<not> available then defaultValue
      else
        case localStorage st key of
          None \<Rightarrow> defaultValue
        | Some EmptyText \<Rightarrow> defaultValue
        | Some Malformed \<Rightarrow> defaultValue
        | Some (Json v) \<Rightarrow> v)"

definition user_setItem :: "bool \<Rightarrow> state \<Rightarrow> string \<Rightarrow> jsval \<Rightarrow> (error + bool) \<times> state" where
  "user_setItem available st key v =
     (if \<not> available then (Inl (Error ''localStorage not available''), st)
      else
        case localStorage_setItem st key (JSON_stringify v) of
          (Inr _, st1) \<Rightarrow> (Inr True, st1)
        | (Inl QuotaExceededError, st1) \<Rightarrow> (Inl (Error ''Storage quota exceeded''), st1)
        | (Inl e, st1) \<Rightarrow> (Inl e, st1))"

text \<open>
  The loop of getAllUsers: a user that cannot be normalised or does not validate is
  skipped, a valid one is kept and its id joins the set.
\<close>

fun usersLoop :: "jsval list \<Rightarrow> state \<Rightarrow> string set \<Rightarrow> (jsval list \<times> state) option" where
  "usersLoop [] st existingIds = Some ([], st)"
| "usersLoop (user # rest) st existingIds =
     (case normalizeUser st user existingIds of
        None \<Rightarrow> None
      | Some (Inl e, st1) \<Rightarrow> usersLoop rest st1 existingIds
      | Some (Inr normalized, st1) \<Rightarrow>
          (case UserValidators_user normalized of
             Inl e \<Rightarrow> usersLoop rest st1 existingIds
           | Inr ok \<Rightarrow>
               map_option (\<lambda>(normalizedUsers, st2). (normalized # normalizedUsers, st2))
                 (usersLoop rest st1 (addId (getProp normalized ''id'') existingIds))))"

definition getAllUsers :: "bool \<Rightarrow> host \<Rightarrow> state \<Rightarrow> ((error + jsval list) \<times> state) option" where
  "getAllUsers available h st =
     (case user_getItem available st USERS_LIST (JArr []) of
        JArr users \<Rightarrow>
          if list_ex isNullish users
          then Some (Inl (TypeError ''Cannot read properties of null or undefined''), st)
          else
            (case usersLoop users st (stringIds (map (\<lambda>u. getProp u ''id'') users)) of
               None \<Rightarrow> None
             | Some (normalizedUsers, st1) \<Rightarrow>
                 (case sortByTimeDesc h ''lastActive'' normalizedUsers of
                    Inl e \<Rightarrow> Some (Inl e, st1)
                  | Inr sortedUsers \<Rightarrow> Some (Inr sortedUsers, st1)))
      | _ \<Rightarrow> Some (Inl (TypeError ''users.map is not a function''), st))"

text \<open>The lower-case names of validated users: their names are strings.\<close>

definition lowerNames :: "jsval list \<Rightarrow> string set" where
  "lowerNames users =
     set (concat (map (\<lambda>u. case getProp u ''name'' of JStr s \<Rightarrow> [toLowerCase s] | _ \<Rightarrow> []) users))"

definition createUser :: "bool \<Rightarrow> host \<Rightarrow> state \<Rightarrow> jsval \<Rightarrow> ((error + jsval) \<times> state) option" where
  "createUser available h st userData =
     (case getAllUsers available h st of
        None \<Rightarrow> None
      | Some (Inl e, st1) \<Rightarrow> Some (Inl e, st1)
      | Some (Inr users, st1) \<Rightarrow>
          let existingIds = allStringIds (map (\<lambda>u. getProp u ''id'') users);
              existingNames = lowerNames users
          in
          if isNullish userData then
            Some (Inl (TypeError ''Cannot read properties of null or undefined''), st1)
          else
            (case getProp userData ''name'' of
               JStr name \<Rightarrow>
                 if trim (toLowerCase name) \<in> existingNames then
                   Some (Inl (Error ''A user with this name already exists''), st1)
                 else
                   (case normalizeUser st1 userData existingIds of
                      None \<Rightarrow> None
                    | Some (Inl e, st2) \<Rightarrow> Some (Inl e, st2)
                    | Some (Inr newUser, st2) \<Rightarrow>
                        (case UserValidators_user newUser of
                           Inl e \<Rightarrow> Some (Inl e, st2)
                         | Inr ok \<Rightarrow>
                             (case user_setItem available st2 USERS_LIST (JArr (users @ [newUser])) of
                                (Inl e, st3) \<Rightarrow> Some (Inl e, st3)
                              | (Inr done, st3) \<Rightarrow> Some (Inr newUser, st3))))
             | _ \<Rightarrow> Some (Inl (TypeError ''Cannot read properties of undefined (reading toLowerCase)''), st1)))"

text \<open>userExistsByName, the check of the same service that looks at active users only.\<close>

definition userExistsByName :: "bool \<Rightarrow> host \<Rightarrow> state \<Rightarrow> jsval \<Rightarrow> ((error + bool) \<times> state) option" where
  "userExistsByName available h st name =
     (if \<not> truthy name then Some (Inr False, st)
      else
        case getAllUsers available h st of
          None \<Rightarrow> None
        | Some (Inl e, st1) \<Rightarrow> Some (Inl e, st1)
        | Some (Inr users, st1) \<Rightarrow>
            (case name of
               JStr s \<Rightarrow>
                 Some (Inr (list_ex
                   (\<lambda>user. truthy (getProp user ''isActive'')
                      \<and> (case getProp user ''name'' of
                            JStr n \<Rightarrow> trim (toLowerCase n) = trim (toLowerCase s)
                          | _ \<Rightarrow> False)) users), st1)
             | _ \<Rightarrow>
                 if list_ex (\<lambda>user. truthy (getProp user ''isActive'')) users
                 then Some (Inl (TypeError ''name.toLowerCase is not a function''), st1)
                 else Some (Inr False, st1)))"

text \<open>
  A store whose user list holds one profile, ``Bob'', soft-deleted (\<open>isActive\<close> is
  \<open>false\<close>).
\<close>

definition deletedBob :: jsval where
  "deletedBob =
     JObj [(''id'', JStr ''user_1700000000000_a1b2c3''),
           (''name'', JStr ''Bob''),
           (''createdAt'', JStr ''2023-11-14T22:13:20.000Z''),
           (''lastActive'', JStr ''2023-11-15T08:00:00.000Z''),
           (''isActive'', JBool False)]"

definition storeWithDeletedBob :: state where
  "storeWithDeletedBob = world.extend busyWorld
     (state.fields [USERS_LIST \<mapsto> Json (JArr [deletedBob])] (\<lambda>content. True))"

text \<open>The profile as getAllUsers returns it.\<close>

definition normalBob :: jsval where
  "normalBob = JObj
         [(''id'', JStr ''user_1700000000000_a1b2c3''),
          (''name'', JStr ''Bob''),
          (''createdAt'', JStr ''2023-11-14T22:13:20.000Z''),
          (''lastActive'', JStr ''2023-11-15T08:00:00.000Z''),
          (''preferences'', JObj DEFAULT_USER_PREFERENCES),
          (''isActive'', JBool False),
          (''metadata'', JObj [(''totalWorkouts'', JNum (Fin 0)), (''firstWorkout'', JNull),
                               (''lastWorkout'', JNull)])]"


section \<open>Properties of the arithmetic\<close>

lemma pow2_pos: "0 < pow2 k"
  by (simp add: pow2_def)

lemma pow2_powi: "pow2 k = 2 powi k"
  by (simp add: pow2_def power_int_def field_simps)

lemma pow2_add: "pow2 (a + b) = pow2 a * pow2 b"
  by (simp add: pow2_powi power_int_add)

lemma pow2_nat: "pow2 (int n) = 2 ^ n"
  by (simp add: pow2_def)

lemma pow2_mono: "a \<le> b \<Longrightarrow> pow2 a \<le> pow2 b"
  by (simp add: pow2_powi power_int_increasing)

lemma binade_bounds:
  assumes "x \<noteq> 0"
  shows "pow2 (binade x) \<le> \<bar>x\<bar> \<and> \<bar>x\<bar> < pow2 (binade x + 1)"
proof (cases "1 \<le> \<bar>x\<bar>")
  case True
  let ?f = "\<lfloor>\<bar>x\<bar>\<rfloor>"
  have f: "0 < ?f" using True by linarith
  have b: "binade x = bitlen ?f - 1" using True by (simp add: binade_def Let_def)
  have bl: "0 < bitlen ?f" using f bitlen_eq_zero_iff[of ?f] bitlen_nonneg[of ?f] by linarith
  from bitlen_bounds[OF f] have lo: "2 ^ nat (bitlen ?f - 1) \<le> ?f" and hi: "?f < 2 ^ nat (bitlen ?f)"
    by auto
  have "pow2 (bitlen ?f - 1) = of_int (2 ^ nat (bitlen ?f - 1))"
    using bl by (simp add: pow2_def)
  also have "\<dots> \<le> of_int ?f" using lo by (simp only: of_int_le_iff)
  also have "\<dots> \<le> \<bar>x\<bar>" by simp
  finally have 1: "pow2 (binade x) \<le> \<bar>x\<bar>" by (simp add: b)
  have "?f + 1 \<le> 2 ^ nat (bitlen ?f)" using hi by simp
  then have "(of_int (?f + 1) :: rat) \<le> of_int (2 ^ nat (bitlen ?f))" by (simp only: of_int_le_iff)
  moreover have "\<bar>x\<bar> < of_int (?f + 1)" by linarith
  ultimately have "\<bar>x\<bar> < of_int (2 ^ nat (bitlen ?f))" by linarith
  moreover have "pow2 (bitlen ?f) = of_int (2 ^ nat (bitlen ?f))"
    using bl by (simp add: pow2_def)
  ultimately have 2: "\<bar>x\<bar> < pow2 (binade x + 1)" by (simp add: b)
  from 1 2 show ?thesis ..
next
  case False
  let ?a = "\<bar>x\<bar>"
  have a: "0 < ?a" "?a < 1" using assms False by auto
  let ?c = "\<lfloor>1 / ?a\<rfloor>"
  have ia: "1 < 1 / ?a" using a by simp
  have c: "0 < ?c" using ia by linarith
  define j where "j = bitlen ?c - 1"
  have bl: "0 < bitlen ?c" using c bitlen_eq_zero_iff[of ?c] bitlen_nonneg[of ?c] by linarith
  have j0: "0 \<le> j" using bl by (simp add: j_def)
  have nb: "nat (bitlen ?c) = Suc (nat j)" using bl by (simp add: j_def)
  have lo: "2 ^ nat j \<le> ?c" using bitlen_bounds[OF c] by (simp add: j_def)
  have hi: "?c < 2 ^ Suc (nat j)" using bitlen_bounds[OF c] by (simp only: nb)
  have "(of_int (2 ^ nat j) :: rat) \<le> of_int ?c" using lo by (simp only: of_int_le_iff)
  also have "\<dots> \<le> 1 / ?a" by simp
  finally have lo': "2 ^ nat j \<le> 1 / ?a" by simp
  have "?c + 1 \<le> 2 ^ Suc (nat j)" using hi by simp
  then have "(of_int (?c + 1) :: rat) \<le> of_int (2 ^ Suc (nat j))" by (simp only: of_int_le_iff)
  moreover have "1 / ?a < of_int (?c + 1)" by linarith
  ultimately have hi': "1 / ?a < 2 ^ Suc (nat j)" by simp
  have up: "?a * 2 ^ nat j \<le> 1" using lo' a by (simp add: field_simps)
  have dn: "1 < ?a * 2 ^ Suc (nat j)" using hi' a by (simp add: field_simps)
  have bin: "binade x = (if ?a * 2 ^ nat j = 1 then - j else - j - 1)"
    using False by (simp add: binade_def Let_def j_def)
  show ?thesis
  proof (cases "?a * 2 ^ nat j = 1")
    case True
    then have b: "binade x = - j" using bin by simp
    have jpos: "0 < j"
    proof (rule ccontr)
      assume "\<not> 0 < j"
      then have "j = 0" using j0 by simp
      then show False using True a by simp
    qed
    have p1: "pow2 (- j) = 1 / 2 ^ nat j" using jpos by (simp add: pow2_def)
    have eq: "?a = 1 / 2 ^ nat j" using True by (simp add: field_simps)
    have one: "pow2 1 = 2" by (simp add: pow2_def)
    have p2: "pow2 (- j + 1) = 2 * pow2 (- j)"
      unfolding pow2_add one by simp
    have e2: "pow2 (- j) = ?a" using p1 eq by simp
    have "?a < 2 * ?a" using a by simp
    then have "?a < pow2 (- j + 1)" unfolding p2 e2 .
    moreover have "pow2 (- j) \<le> ?a" using e2 by simp
    ultimately show ?thesis unfolding b by blast
  next
    case ne: False
    then have b: "binade x = - j - 1" using bin by simp
    have p1: "pow2 (- j - 1) = 1 / 2 ^ Suc (nat j)"
      using j0 by (simp add: pow2_def nat_add_distrib)
    have p2: "pow2 (- j - 1 + 1) = 1 / 2 ^ nat j"
      using j0 by (cases "j = 0") (simp_all add: pow2_def)
    have "?a * 2 ^ nat j < 1" using up ne by simp
    then have lt: "?a < 1 / 2 ^ nat j" by (simp add: field_simps)
    have gt: "1 / 2 ^ Suc (nat j) < ?a" using dn a by (simp add: field_simps)
    show ?thesis unfolding b p1 p2 using lt gt by simp
  qed
qed

lemma roundHalfEven_int: "roundHalfEven (of_int n) = n"
  by (simp add: roundHalfEven_def)


lemma pow2_less_cancel: "pow2 a < pow2 b \<Longrightarrow> a < b"
  using pow2_mono[of b a] by (cases "a < b") auto

lemma pow2_inverse: "pow2 a * pow2 (- a) = 1"
  using pow2_add[of a "- a"] by (simp add: pow2_def)

lemma toDouble_via_integer:
  assumes x0: "x \<noteq> 0" and lo: "- 1022 \<le> binade x"
    and m: "x = of_int n * pow2 (binade x - 52)" and big: "\<bar>x\<bar> < 2 ^ 1024"
  shows "toDouble x = Fin x"
proof -
  let ?u = "pow2 (binade x - 52)"
  have u: "0 < ?u" by (rule pow2_pos)
  have "x / ?u = of_int n" using m u by (metis nonzero_mult_div_cancel_right order_less_irrefl)
  then have "of_int (roundHalfEven (x / ?u)) * ?u = x"
    using m by (simp add: roundHalfEven_int)
  moreover have "max (binade x) (- 1022) = binade x" using lo by simp
  ultimately show ?thesis
    using x0 big unfolding toDouble_def Let_def by simp
qed

lemma toDouble_exact:
  assumes q: "x * 4 \<in> \<int>" and b: "\<bar>x\<bar> < 2 ^ 51"
  shows "toDouble x = Fin x"
proof (cases "x = 0")
  case True
  then show ?thesis by (simp add: toDouble_def)
next
  case False
  obtain k :: int where k: "x * 4 = of_int k" using q by (rule Ints_cases)
  have k0: "k \<noteq> 0" using False k by auto
  then have "1 \<le> \<bar>k\<bar>" by simp
  then have "(1::rat) \<le> \<bar>of_int k\<bar>" by (metis of_int_1_le_iff of_int_abs)
  moreover have "\<bar>of_int k :: rat\<bar> = \<bar>x\<bar> * 4" unfolding k[symmetric] by (simp add: abs_mult)
  ultimately have xl: "1 / 4 \<le> \<bar>x\<bar>" by simp
  define e where "e = binade x"
  from binade_bounds[OF False] have lo: "pow2 e \<le> \<bar>x\<bar>" and hi: "\<bar>x\<bar> < pow2 (e + 1)"
    by (simp_all add: e_def)
  have q4: "pow2 (- 2) = 1 / 4" by (simp add: pow2_def)
  have "pow2 (- 2) < pow2 (e + 1)" using xl hi q4 by simp
  then have e1: "- 2 \<le> e" using pow2_less_cancel by fastforce
  have p51: "pow2 51 = 2 ^ 51" by (simp add: pow2_def)
  have "pow2 e < pow2 51" using lo b p51 by simp
  then have e2: "e \<le> 50" using pow2_less_cancel by fastforce
  define n where "n = k * 2 ^ nat (50 - e)"
  have "pow2 (50 - e) = 2 ^ nat (50 - e)" using e2 by (simp add: pow2_def)
  then have "of_int n = of_int k * pow2 (50 - e)" by (simp add: n_def)
  also have "\<dots> = x * (4 * pow2 (50 - e))" using k by (simp flip: k)
  also have "4 * pow2 (50 - e) = pow2 2 * pow2 (50 - e)" by (simp add: pow2_def)
  also have "\<dots> = pow2 (52 - e)" by (simp add: pow2_add[symmetric])
  finally have n: "of_int n = x * pow2 (52 - e)" .
  have "of_int n * pow2 (e - 52) = x * (pow2 (52 - e) * pow2 (e - 52))" by (simp add: n)
  also have "pow2 (52 - e) * pow2 (e - 52) = 1" using pow2_inverse[of "52 - e"] by simp
  finally have m: "x = of_int n * pow2 (binade x - 52)" by (simp add: e_def)
  have "\<bar>x\<bar> < 2 ^ 1024" using b by (rule less_trans) simp
  then show ?thesis
    using toDouble_via_integer[OF False _ m] e1 by (simp add: e_def)
qed



lemma quarter_diff: "a * 4 \<in> \<int> \<Longrightarrow> b * 4 \<in> \<int> \<Longrightarrow> (a - b) * 4 \<in> \<int>"
  by (metis Ints_diff left_diff_distrib)

lemma quarter_add: "a * 4 \<in> \<int> \<Longrightarrow> b * 4 \<in> \<int> \<Longrightarrow> (a + b) * 4 \<in> \<int>"
  by (metis Ints_add distrib_right)

lemma numSub_exact:
  assumes "a * 4 \<in> \<int>" "b * 4 \<in> \<int>" "\<bar>a - b\<bar> < 2 ^ 51"
  shows "numSub (Fin a) (Fin b) = Fin (a - b)"
  using toDouble_exact[OF quarter_diff[OF assms(1,2)] assms(3)]
  by (simp add: numSub_def numAdd_def numNeg_def)

lemma numAdd_exact:
  assumes "a * 4 \<in> \<int>" "b * 4 \<in> \<int>" "\<bar>a + b\<bar> < 2 ^ 51"
  shows "numAdd (Fin a) (Fin b) = Fin (a + b)"
  using toDouble_exact[OF quarter_add[OF assms(1,2)] assms(3)]
  by (simp add: numAdd_def)


lemma round2_exact:
  assumes q: "x * 4 \<in> \<int>" and b: "\<bar>x\<bar> < 2 ^ 40"
  shows "round2 (Fin x) = Fin x"
proof -
  obtain k :: int where k: "x * 4 = of_int k" using q by (rule Ints_cases)
  have h: "x * 100 = of_int (25 * k)" using k by simp
  have q1: "x * 100 * 4 \<in> \<int>" unfolding h by (metis Ints_mult Ints_of_int Ints_numeral)
  have "\<bar>x * 100\<bar> < 2 ^ 40 * 100" using b by (simp add: abs_mult)
  also have "\<dots> < (2::rat) ^ 51" by simp
  finally have b1: "\<bar>x * 100\<bar> < 2 ^ 51" .
  have m: "numMul (Fin x) (Fin 100) = Fin (x * 100)"
    using toDouble_exact[OF q1 b1] by (simp add: numMul_def)
  have r: "Math_round (Fin (x * 100)) = Fin (x * 100)"
    unfolding h Math_round_def by simp linarith
  have b2: "\<bar>x\<bar> < 2 ^ 51" using b by (rule less_trans) simp
  have d: "numDiv (Fin (x * 100)) (Fin 100) = Fin x"
    using toDouble_exact[OF q b2] by (simp add: numDiv_def)
  show ?thesis unfolding round2_def m r d ..
qed


section \<open>Properties of the plate solver\<close>
















lemma numMul_exact:
  "a * b * 4 \<in> \<int> \<Longrightarrow> \<bar>a * b\<bar> < 2 ^ 51 \<Longrightarrow> numMul (Fin a) (Fin b) = Fin (a * b)"
  using toDouble_exact[of "a * b"] by (simp add: numMul_def)

lemma numDiv_exact:
  "b \<noteq> 0 \<Longrightarrow> a / b * 4 \<in> \<int> \<Longrightarrow> \<bar>a / b\<bar> < 2 ^ 51 \<Longrightarrow> numDiv (Fin a) (Fin b) = Fin (a / b)"
  using toDouble_exact[of "a / b"] by (simp add: numDiv_def)

lemma floor_five_half: "\<lfloor>(5::rat) / 2\<rfloor> = 2"
  by (simp add: floor_eq_iff)

lemma entriesOrder_lbs:
  "entriesOrder [(45, a), (25, b), (10, c), (5, d), (5 / 2, e)]
   = [(5, d), (10, c), (25, b), (45, a), (5 / 2, e)]"
proof -
  have i: "isIndexKey 45" "isIndexKey 25" "isIndexKey 10" "isIndexKey 5"
    by (simp_all add: isIndexKey_def)
  have n: "\<not> isIndexKey (5 / 2)"
    unfolding isIndexKey_def floor_five_half by simp
  show ?thesis by (simp add: entriesOrder_def i n)
qed

lemma toDouble_hundredth: "toDouble (1 / 100) = Fin (5764607523034235 / 576460752303423488)"
  by code_simp

lemmas solver_eval =
  calculatePlates_def PLATE_WEIGHTS_LBS_def Let_def numLt_def numGe_def
  numSub_exact numAdd_exact numMul_exact numDiv_exact round2_exact
  Math_floor_def Math_abs_def plateSum_def plateCount_def entriesOrder_lbs toDouble_hundredth





text \<open>
  Claim C2, as stated, gives the breakdown \<open>{45: 2}\<close> and \<open>totalPlates = 2\<close> for a 45 lbs
  bar and a 225 lbs target. The solver does not halve: 180 lbs of plates are four 45s.
\<close>

lemma totalPlates_225: "totalPlates (calculatePlates Lbs (Fin 45) (Fin 225)) = Fin 4"
  by (simp add: solver_eval)

theorem calculatePlates_225_not_two_plates:
  "\<not> (plateBreakdown (calculatePlates Lbs (Fin 45) (Fin 225))
        = [(45, Fin 2), (25, Fin 0), (10, Fin 0), (5, Fin 0), (5 / 2, Fin 0)]
      \<and> actualWeight (calculatePlates Lbs (Fin 45) (Fin 225)) = Fin 225
      \<and> exactMatch (calculatePlates Lbs (Fin 45) (Fin 225))
      \<and> totalPlates (calculatePlates Lbs (Fin 45) (Fin 225)) = Fin 2)"
  using totalPlates_225 by simp

text \<open>
  Claim C2, amended: with a 45 lbs bar, a 225 lbs target and the denominations
  [45, 25, 10, 5, 2.5], calculatePlates returns the breakdown \<open>{45: 4}\<close> (every other
  denomination 0), \<open>actualWeight = 225\<close>, \<open>exactMatch = true\<close> and \<open>totalPlates = 4\<close>: the
  total plate count for the bar, not a per-side count.
\<close>

theorem calculatePlates_225:
  "calculatePlates Lbs (Fin 45) (Fin 225) =
     \<lparr> plateBreakdown = [(45, Fin 4), (25, Fin 0), (10, Fin 0), (5, Fin 0), (5 / 2, Fin 0)],
       actualWeight = Fin 225, targetWeight = Fin 225, exactMatch = True, totalPlates = Fin 4,
       barbellWeight = Fin 45, plateWeight = Fin 180, unitLabel = Lbs \<rparr>"
  by (simp add: solver_eval)

section \<open>Properties of the identifier generator\<close>

lemma showNat_timestamp: "showNat 1703891234567 = ''1703891234567''"
  by (simp add: showNat.simps hexDigit_def)

lemma showNat_500: "showNat 500 = ''500''"
  by (simp add: showNat.simps hexDigit_def)

lemma floor_busy: "\<lfloor>(2001::rat) / 2\<rfloor> = 1000"
  by (simp add: floor_eq_iff)

lemma microseconds_busy:
  "wholePart (Math_floor (numMul (Fin (frac (2001 / 2))) (Fin 1000))) = 500"
proof -
  have f: "frac (2001 / 2 :: rat) = 1 / 2" by (simp add: frac_def floor_busy)
  have m: "numMul (Fin (1 / 2)) (Fin 1000) = Fin 500"
    using numMul_exact[of "1 / 2" 1000] by simp
  show ?thesis unfolding f m by (simp add: Math_floor_def wholePart_def)
qed

lemmas idgen_eval =
  generateWorkoutId_def generateWorkoutIdLoop.simps generateUniqueId_def
  Date_now_def Math_random_def performance_now_def toISOString_now_def
  substr_def toString16_def hexDigit_def showNat_timestamp showNat_500 Let_def
  microseconds_busy

lemmas pattern_eval =
  isValidWorkoutId_def timestampRandomPattern_def uuidPattern_def numericPattern_def
  isDigit_def isHexLower_def isHexAnyCase_def

text \<open>
  Claim C7 at a concrete input. Eleven identifiers of the current millisecond are taken,
  so the twelfth candidate comes from the widened path: millisecond, microsecond part and
  eight hex digits, joined by two underscores. isValidWorkoutId accepts none of its three
  shapes for it.
\<close>

theorem generateWorkoutId_widened_rejected:
  "fst (generateWorkoutId busyWorld takenIds) = ''1703891234567_500_b3f7c9ab''
   \<and> \<not> isValidWorkoutId (JStr ''1703891234567_500_b3f7c9ab'')"
proof
  show "fst (generateWorkoutId busyWorld takenIds) = ''1703891234567_500_b3f7c9ab''"
    by (simp add: idgen_eval busyWorld_def takenIds_def)
  show "\<not> isValidWorkoutId (JStr ''1703891234567_500_b3f7c9ab'')"
    by (simp add: pattern_eval)
qed

section \<open>Properties of normalisation and validation\<close>

lemma normalizedId_IdSet:
  "\<exists>wid w'. normalizedId w v (IdSet S) = (Inr (JStr wid), w')"
  by (cases v)
    (auto simp: normalizedId_def generateWorkoutIdFor_def isValidWorkoutId_def split_beta Let_def)

lemma js_Number_convertible:
  "\<not> toPrimitiveThrows v \<Longrightarrow> js_Number h v = Inr (coerced h v)"
  by (cases v) (simp_all add: js_Number_def coerced_def)

lemma js_Number_throws:
  "toPrimitiveThrows v \<Longrightarrow> \<exists>m. js_Number h v = Inl (TypeError m)"
  by (cases v) (simp_all add: js_Number_def)

lemma convertNumbers_convertible:
  assumes "convertible raw"
  shows "convertNumbers h raw
         = Inr (coerced h (getProp raw ''targetWeight''), coerced h (getProp raw ''actualWeight''),
                coerced h (getProp raw ''sets''), coerced h (getProp raw ''reps''))"
  using assms by (simp add: convertNumbers_def convertible_def js_Number_convertible)

lemma convertNumbers_throws:
  assumes "\<not> convertible raw"
  shows "\<exists>m. convertNumbers h raw = Inl (TypeError m)"
proof -
  consider (a) "toPrimitiveThrows (getProp raw ''targetWeight'')"
    | (b) "\<not> toPrimitiveThrows (getProp raw ''targetWeight'')"
          "toPrimitiveThrows (getProp raw ''actualWeight'')"
    | (c) "\<not> toPrimitiveThrows (getProp raw ''targetWeight'')"
          "\<not> toPrimitiveThrows (getProp raw ''actualWeight'')"
          "toPrimitiveThrows (getProp raw ''sets'')"
    | (d) "\<not> toPrimitiveThrows (getProp raw ''targetWeight'')"
          "\<not> toPrimitiveThrows (getProp raw ''actualWeight'')"
          "\<not> toPrimitiveThrows (getProp raw ''sets'')"
          "toPrimitiveThrows (getProp raw ''reps'')"
    using assms unfolding convertible_def by blast
  then show ?thesis
  proof cases
    case a
    then obtain m where "js_Number h (getProp raw ''targetWeight'') = Inl (TypeError m)"
      using js_Number_throws by blast
    then show ?thesis by (simp add: convertNumbers_def)
  next
    case b
    then obtain m where "js_Number h (getProp raw ''actualWeight'') = Inl (TypeError m)"
      using js_Number_throws by blast
    then show ?thesis using b by (simp add: convertNumbers_def js_Number_convertible)
  next
    case c
    then obtain m where "js_Number h (getProp raw ''sets'') = Inl (TypeError m)"
      using js_Number_throws by blast
    then show ?thesis using c by (simp add: convertNumbers_def js_Number_convertible)
  next
    case d
    then obtain m where "js_Number h (getProp raw ''reps'') = Inl (TypeError m)"
      using js_Number_throws by blast
    then show ?thesis using d by (simp add: convertNumbers_def js_Number_convertible)
  qed
qed

lemma normalizeWorkout_IdSet:
  assumes "\<not> isNullish raw" and "convertible raw"
  shows "\<exists>wid d c u w'.
           normalizeWorkout h w raw (IdSet S)
           = (Inr (workoutObject raw (JStr wid) d
                     (coerced h (getProp raw ''targetWeight''))
                     (coerced h (getProp raw ''actualWeight''))
                     (coerced h (getProp raw ''sets''))
                     (coerced h (getProp raw ''reps'')) c u), w')
           \<and> \<not> isNullish d"
proof -
  obtain wid w1 where n: "normalizedId w (getProp raw ''id'') (IdSet S) = (Inr (JStr wid), w1)"
    using normalizedId_IdSet by blast
  show ?thesis
    using assms(1) n
    by (auto simp: normalizeWorkout_def workoutObject_def Let_def split_beta
        convertNumbers_convertible[OF assms(2)] isNullish_def truthy_def)
qed

lemma normalizeWorkout_throws:
  assumes "\<not> isNullish raw" and "\<not> convertible raw"
  shows "\<exists>m w'. normalizeWorkout h w raw (IdSet S) = (Inl (TypeError m), w')"
proof -
  obtain wid w1 where n: "normalizedId w (getProp raw ''id'') (IdSet S) = (Inr (JStr wid), w1)"
    using normalizedId_IdSet by blast
  obtain m where c: "convertNumbers h raw = Inl (TypeError m)"
    using convertNumbers_throws[OF assms(2)] by blast
  show ?thesis
    using assms(1) n unfolding normalizeWorkout_def by (simp add: split_beta Let_def c)
qed

lemma getProp_workoutObject [simp]:
  "getProp (workoutObject raw wid d tw aw ns nr c u) ''id'' = wid"
  "getProp (workoutObject raw wid d tw aw ns nr c u) ''date'' = d"
  "getProp (workoutObject raw wid d tw aw ns nr c u) ''exercise'' = orElse (getProp raw ''exercise'') (JStr '''')"
  "getProp (workoutObject raw wid d tw aw ns nr c u) ''targetWeight'' = JNum (numOr tw 0)"
  "getProp (workoutObject raw wid d tw aw ns nr c u) ''actualWeight'' = JNum (numOr aw 0)"
  "getProp (workoutObject raw wid d tw aw ns nr c u) ''unit'' = orElse (getProp raw ''unit'') (JStr ''lbs'')"
  "getProp (workoutObject raw wid d tw aw ns nr c u) ''sets'' = JNum (numOr ns 1)"
  "getProp (workoutObject raw wid d tw aw ns nr c u) ''reps'' = JNum (numOr nr 1)"
  by (simp_all add: getProp_def workoutObject_def)

lemma orElse_not_nullish: "\<not> isNullish b \<Longrightarrow> \<not> isNullish (orElse a b)"
  by (cases a) (auto simp: orElse_def isNullish_def truthy_def)

lemma leZero_numOr_0: "leZero (numOr n 0) = (\<not> positive n)"
  by (cases n) (auto simp: leZero_def numOr_def positive_def)

lemma leZero_numOr_1: "leZero (numOr n 1) = negative n"
  by (cases n) (auto simp: leZero_def numOr_def negative_def)

lemma validate_workoutObject:
  assumes "\<not> isNullish d"
  shows "(DataValidators_workout (workoutObject raw (JStr wid) d tw aw ns nr c u) = Inr True)
         = (positive tw \<and> positive aw
            \<and> (if truthy (getProp raw ''unit'')
                 then getProp raw ''unit'' = JStr ''lbs'' \<or> getProp raw ''unit'' = JStr ''kg''
                 else True)
            \<and> \<not> negative ns \<and> \<not> negative nr)"
proof -
  have m: "filter (\<lambda>field. isNullish (getProp (workoutObject raw (JStr wid) d tw aw ns nr c u) field))
             requiredWorkoutFields = []"
    using assms orElse_not_nullish[of "JStr ''lbs''" "getProp raw ''unit''"]
      orElse_not_nullish[of "JStr []" "getProp raw ''exercise''"]
    by (simp add: requiredWorkoutFields_def isNullish_def)
  have o: "\<not> isNullish (workoutObject raw (JStr wid) d tw aw ns nr c u)"
    by (simp add: workoutObject_def isNullish_def)
  show ?thesis
    unfolding DataValidators_workout_def m
    using o
    by (auto simp: Let_def isNumber_def numberValue_def leZero_numOr_0 leZero_numOr_1 orElse_def)
qed

lemmas normalize_eval =
  normalizeWorkout_def normalizedId_def generateWorkoutIdFor_def isNullish_def getProp_def
  truthy_def orElse_def numOr_def js_Number_def convertNumbers_def isoDatePart_def plainHost_def

text \<open>
  Claim C3, as stated, promises that the result of normalizeWorkout always validates.
  The empty object is normalised to a record with \<open>targetWeight = 0\<close>, which
  DataValidators.workout rejects.
\<close>

theorem normalizeWorkout_empty_object_rejected:
  "fst (normalizeWorkout plainHost busyWorld (JObj []) (IdSet {})) =
     Inr (JObj
       [(''id'', JStr ''1703891234567_03f7c9''),
        (''date'', JStr ''2023-12-29''),
        (''exercise'', JStr []),
        (''targetWeight'', JNum (Fin 0)),
        (''actualWeight'', JNum (Fin 0)),
        (''unit'', JStr ''lbs''),
        (''barbell'', JStr ''Olympic Barbell (45 lbs)''),
        (''sets'', JNum (Fin 1)),
        (''reps'', JNum (Fin 1)),
        (''completed'', JBool False),
        (''notes'', JStr []),
        (''createdAt'', JStr ''2023-12-29T23:07:14.567Z''),
        (''updatedAt'', JStr ''2023-12-29T23:07:14.567Z'')])
   \<and> DataValidators_workout (JObj
       [(''id'', JStr ''1703891234567_03f7c9''),
        (''date'', JStr ''2023-12-29''),
        (''exercise'', JStr []),
        (''targetWeight'', JNum (Fin 0)),
        (''actualWeight'', JNum (Fin 0)),
        (''unit'', JStr ''lbs''),
        (''barbell'', JStr ''Olympic Barbell (45 lbs)''),
        (''sets'', JNum (Fin 1)),
        (''reps'', JNum (Fin 1)),
        (''completed'', JBool False),
        (''notes'', JStr []),
        (''createdAt'', JStr ''2023-12-29T23:07:14.567Z''),
        (''updatedAt'', JStr ''2023-12-29T23:07:14.567Z'')])
     = Inl (Error ''Target weight must be a positive number'')"
proof
  show "fst (normalizeWorkout plainHost busyWorld (JObj []) (IdSet {})) =
     Inr (JObj
       [(''id'', JStr ''1703891234567_03f7c9''),
        (''date'', JStr ''2023-12-29''),
        (''exercise'', JStr []),
        (''targetWeight'', JNum (Fin 0)),
        (''actualWeight'', JNum (Fin 0)),
        (''unit'', JStr ''lbs''),
        (''barbell'', JStr ''Olympic Barbell (45 lbs)''),
        (''sets'', JNum (Fin 1)),
        (''reps'', JNum (Fin 1)),
        (''completed'', JBool False),
        (''notes'', JStr []),
        (''createdAt'', JStr ''2023-12-29T23:07:14.567Z''),
        (''updatedAt'', JStr ''2023-12-29T23:07:14.567Z'')])"
    by (simp add: normalize_eval idgen_eval busyWorld_def)
  show "DataValidators_workout (JObj
       [(''id'', JStr ''1703891234567_03f7c9''),
        (''date'', JStr ''2023-12-29''),
        (''exercise'', JStr []),
        (''targetWeight'', JNum (Fin 0)),
        (''actualWeight'', JNum (Fin 0)),
        (''unit'', JStr ''lbs''),
        (''barbell'', JStr ''Olympic Barbell (45 lbs)''),
        (''sets'', JNum (Fin 1)),
        (''reps'', JNum (Fin 1)),
        (''completed'', JBool False),
        (''notes'', JStr []),
        (''createdAt'', JStr ''2023-12-29T23:07:14.567Z''),
        (''updatedAt'', JStr ''2023-12-29T23:07:14.567Z'')])
     = Inl (Error ''Target weight must be a positive number'')"
    by (simp add: DataValidators_workout_def requiredWorkoutFields_def getProp_def
        isNullish_def isNumber_def numberValue_def leZero_def Let_def)
qed

text \<open>
  Claim C3, amended: for every input \<open>raw\<close> other than \<open>null\<close> and \<open>undefined\<close> (the empty
  object included) and every set of existing ids, normalizeWorkout throws only when
  \<^verbatim>\<open>Number\<close> cannot convert \<open>raw\<close>'s targetWeight, actualWeight, sets or reps to a
  primitive (an object with an own \<^verbatim>\<open>toString\<close> property, or an array holding one), and
  then it throws a TypeError. Otherwise it returns a record, and the record passes
  DataValidators.workout exactly when \<open>raw\<close>'s targetWeight and actualWeight coerce to
  numbers above zero, its unit is falsy or one of \<open>lbs\<close> and \<open>kg\<close>, and neither its sets
  nor its reps coerces to a number below zero.
\<close>

theorem normalizeWorkout_then_validate:
  assumes "\<not> isNullish raw"
  shows "if convertible raw
         then (\<exists>r w'. normalizeWorkout h w raw (IdSet S) = (Inr r, w')
                 \<and> (DataValidators_workout r = Inr True) = normalizesToValid h raw)
         else (\<exists>m w'. normalizeWorkout h w raw (IdSet S) = (Inl (TypeError m), w'))"
proof (cases "convertible raw")
  case True
  obtain wid d c u w' where
    n: "normalizeWorkout h w raw (IdSet S)
        = (Inr (workoutObject raw (JStr wid) d
                  (coerced h (getProp raw ''targetWeight''))
                  (coerced h (getProp raw ''actualWeight''))
                  (coerced h (getProp raw ''sets''))
                  (coerced h (getProp raw ''reps'')) c u), w')"
    and d: "\<not> isNullish d"
    using normalizeWorkout_IdSet[OF assms True] by blast
  show ?thesis
    using True n validate_workoutObject[OF d] unfolding normalizesToValid_def by auto
next
  case False
  then show ?thesis using normalizeWorkout_throws[OF assms False] by simp
qed

theorem normalizeWorkout_then_validate_witness:
  "\<not> isNullish (JObj [(''targetWeight'', JNum (Fin 135)), (''actualWeight'', JStr ''135'')])
   \<and> convertible (JObj [(''targetWeight'', JNum (Fin 135)), (''actualWeight'', JStr ''135'')])
   \<and> (\<exists>r w'. normalizeWorkout
                \<lparr>numberOfString = (\<lambda>_. Fin 135), stringOfNumber = (\<lambda>_. ''135''),
                 dateOf = (\<lambda>_. NaN)\<rparr> busyWorld
                (JObj [(''targetWeight'', JNum (Fin 135)), (''actualWeight'', JStr ''135'')])
                (IdSet {}) = (Inr r, w')
              \<and> DataValidators_workout r = Inr True)
   \<and> \<not> isNullish (JObj [(''targetWeight'', JObj [(''toString'', JNull)])])
   \<and> \<not> convertible (JObj [(''targetWeight'', JObj [(''toString'', JNull)])])
   \<and> (\<exists>m w'. normalizeWorkout plainHost busyWorld
                (JObj [(''targetWeight'', JObj [(''toString'', JNull)])]) (IdSet {})
              = (Inl (TypeError m), w'))"
  using normalizeWorkout_then_validate
    [of "JObj [(''targetWeight'', JNum (Fin 135)), (''actualWeight'', JStr ''135'')]"
        "\<lparr>numberOfString = (\<lambda>_. Fin 135), stringOfNumber = (\<lambda>_. ''135''),
          dateOf = (\<lambda>_. NaN)\<rparr>" busyWorld "{}"]
    normalizeWorkout_then_validate
    [of "JObj [(''targetWeight'', JObj [(''toString'', JNull)])]" plainHost busyWorld "{}"]
  by (simp add: isNullish_def convertible_def normalizesToValid_def getProp_def js_Number_def
      coerced_def positive_def negative_def truthy_def)

text \<open>
  Claim C5 at a concrete input, with the identifiers of the current millisecond taken as
  for claim C7. The first normalisation of the empty object assigns the identifier of
  the widened path; isValidWorkoutId rejects it, so the second normalisation replaces it.
\<close>

theorem normalizeWorkout_twice_changes_id:
  "normalizeTwice plainHost busyWorld (JObj []) takenIds takenIds =
     Some
      (JObj
        [(''id'', JStr ''1703891234567_500_b3f7c9ab''),
         (''date'', JStr ''2023-12-29''),
         (''exercise'', JStr []),
         (''targetWeight'', JNum (Fin 0)),
         (''actualWeight'', JNum (Fin 0)),
         (''unit'', JStr ''lbs''),
         (''barbell'', JStr ''Olympic Barbell (45 lbs)''),
         (''sets'', JNum (Fin 1)),
         (''reps'', JNum (Fin 1)),
         (''completed'', JBool False),
         (''notes'', JStr []),
         (''createdAt'', JStr ''2023-12-29T23:07:14.567Z''),
         (''updatedAt'', JStr ''2023-12-29T23:07:14.567Z'')],
       JObj
        [(''id'', JStr ''1703891234567_c3f7c9''),
         (''date'', JStr ''2023-12-29''),
         (''exercise'', JStr []),
         (''targetWeight'', JNum (Fin 0)),
         (''actualWeight'', JNum (Fin 0)),
         (''unit'', JStr ''lbs''),
         (''barbell'', JStr ''Olympic Barbell (45 lbs)''),
         (''sets'', JNum (Fin 1)),
         (''reps'', JNum (Fin 1)),
         (''completed'', JBool False),
         (''notes'', JStr []),
         (''createdAt'', JStr ''2023-12-29T23:07:14.567Z''),
         (''updatedAt'', JStr ''2023-12-29T23:07:14.567Z'')])"
  by (simp add: normalizeTwice_def normalize_eval idgen_eval pattern_eval busyWorld_def
      takenIds_def)

section \<open>importData: the checks before the first write\<close>




section \<open>createUser and soft-deleted profiles\<close>

lemma storeWithDeletedBob_fields:
  "localStorage storeWithDeletedBob = [USERS_LIST \<mapsto> Json (JArr [deletedBob])]"
  "isoNow storeWithDeletedBob = (\<lambda>_. ''2023-12-29T23:07:14.567Z'')"
  by (simp_all add: storeWithDeletedBob_def world.defs state.defs busyWorld_def)

lemma char_of_98: "char_of (98::nat) = CHR ''b''"
  by code_simp

lemma lower_Bob: "toLowerCase ''Bob'' = ''bob''" "toLowerCase ''bob'' = ''bob''"
  by (simp_all add: toLowerCase_def lowerChar_def char_of_98)

lemma trim_Bob: "trim ''Bob'' = ''Bob''" "trim ''bob'' = ''bob''"
  by (simp_all add: trim_def isSpace_def)

lemma name_Bob: "UserValidators_name (JStr ''Bob'') = Inr True"
  by (simp add: UserValidators_name_def trim_Bob isNameChar_def isSpace_def)

lemma normalize_Bob:
  "\<exists>st1. normalizeUser storeWithDeletedBob deletedBob S
     = Some (Inr (JObj
         [(''id'', JStr ''user_1700000000000_a1b2c3''),
          (''name'', JStr ''Bob''),
          (''createdAt'', JStr ''2023-11-14T22:13:20.000Z''),
          (''lastActive'', JStr ''2023-11-15T08:00:00.000Z''),
          (''preferences'', JObj DEFAULT_USER_PREFERENCES),
          (''isActive'', JBool False),
          (''metadata'', JObj [(''totalWorkouts'', JNum (Fin 0)), (''firstWorkout'', JNull),
                               (''lastWorkout'', JNull)])]), st1)"
  by (simp add: normalizeUser_def deletedBob_def toISOString_now_def getProp_def truthy_def
      orElse_def isNullish_def trim_Bob spread_def ownEntries_def optProp_def split_beta Let_def)

lemma validate_Bob: "UserValidators_user normalBob = Inr True"
  by (simp add: UserValidators_user_def normalBob_def requiredUserFields_def getProp_def
      truthy_def isNullish_def name_Bob)

lemma getAllUsers_Bob:
  "\<exists>st1. getAllUsers True h storeWithDeletedBob = Some (Inr [normalBob], st1)"
proof -
  obtain st1 where n: "normalizeUser storeWithDeletedBob deletedBob
      (stringIds (map (\<lambda>u. getProp u ''id'') [deletedBob])) = Some (Inr normalBob, st1)"
    using normalize_Bob unfolding normalBob_def by blast
  have nn: "\<not> isNullish deletedBob" by (simp add: isNullish_def deletedBob_def)
  show ?thesis
    unfolding getAllUsers_def
    by (simp add: user_getItem_def storeWithDeletedBob_fields nn usersLoop.simps n validate_Bob
        sortByTimeDesc_def sortWith_def del: map_eq_conv list.map)
qed

lemma emptyStore_fields:
  "localStorage emptyStore = Map.empty" "storageFits emptyStore = (\<lambda>c. True)"
  "isoNow emptyStore = (\<lambda>_. ''2023-12-29T23:07:14.567Z'')"
  "dateNow emptyStore = (\<lambda>_. 1703891234567)"
  "mathRandom emptyStore = (\<lambda>k. [k mod 16, 3, 15, 7, 12, 9, 10, 11])"
  "randomCalls emptyStore = 0" "dateCalls emptyStore = 0" "isoCalls emptyStore = 0"
  by (simp_all add: emptyStore_def world.defs state.defs busyWorld_def)

lemma createUser_empty:
  "map_option fst (createUser True plainHost emptyStore (JObj [(''name'', JStr ''bob'')]))
   = Some (Inr (JObj
         [(''id'', JStr ''user_1703891234567_03f7c9''),
          (''name'', JStr ''bob''),
          (''createdAt'', JStr ''2023-12-29T23:07:14.567Z''),
          (''lastActive'', JStr ''2023-12-29T23:07:14.567Z''),
          (''preferences'', JObj DEFAULT_USER_PREFERENCES),
          (''isActive'', JBool True),
          (''metadata'', JObj [(''totalWorkouts'', JNum (Fin 0)), (''firstWorkout'', JNull),
                               (''lastWorkout'', JNull)])]))"
proof -
  have g: "getAllUsers True plainHost emptyStore = Some (Inr [], emptyStore)"
    by (simp add: getAllUsers_def user_getItem_def emptyStore_fields sortByTimeDesc_def sortWith_def stringIds_def)
  have gu: "getProp (JObj [(''name'', JStr ''bob'')]) k = (if k = ''name'' then JStr ''bob'' else JUndefined)" for k
    by (simp add: getProp_def)
  have i: "generateUserId {} (emptyStore\<lparr>isoCalls := Suc 0\<rparr>)
           = Some (''user_1703891234567_03f7c9'',
                   emptyStore\<lparr>isoCalls := Suc 0, dateCalls := Suc 0, randomCalls := Suc 0\<rparr>)"
    by (subst generateUserId.simps)
       (simp add: Date_now_def Math_random_def emptyStore_fields showNat_timestamp toString16_def
          substring_def hexDigit_def Let_def)
  have n: "normalizeUser emptyStore (JObj [(''name'', JStr ''bob'')]) {}
     = Some (Inr (JObj
         [(''id'', JStr ''user_1703891234567_03f7c9''),
          (''name'', JStr ''bob''),
          (''createdAt'', JStr ''2023-12-29T23:07:14.567Z''),
          (''lastActive'', JStr ''2023-12-29T23:07:14.567Z''),
          (''preferences'', JObj DEFAULT_USER_PREFERENCES),
          (''isActive'', JBool True),
          (''metadata'', JObj [(''totalWorkouts'', JNum (Fin 0)), (''firstWorkout'', JNull),
                               (''lastWorkout'', JNull)])]),
        emptyStore\<lparr>isoCalls := Suc 0, dateCalls := Suc 0, randomCalls := Suc 0\<rparr>)"
    by (simp add: normalizeUser_def toISOString_now_def gu truthy_def emptyStore_fields i
      orElse_def isNullish_def trim_Bob spread_def ownEntries_def optProp_def split_beta Let_def)
  have v: "UserValidators_user (JObj
         [(''id'', JStr ''user_1703891234567_03f7c9''),
          (''name'', JStr ''bob''),
          (''createdAt'', JStr ''2023-12-29T23:07:14.567Z''),
          (''lastActive'', JStr ''2023-12-29T23:07:14.567Z''),
          (''preferences'', JObj DEFAULT_USER_PREFERENCES),
          (''isActive'', JBool True),
          (''metadata'', JObj [(''totalWorkouts'', JNum (Fin 0)), (''firstWorkout'', JNull),
                               (''lastWorkout'', JNull)])]) = Inr True"
    by (simp add: UserValidators_user_def requiredUserFields_def getProp_def
      truthy_def isNullish_def UserValidators_name_def trim_Bob isNameChar_def isSpace_def)
  show ?thesis
    by (simp add: createUser_def g gu lowerNames_def allStringIds_def isNullish_def lower_Bob trim_Bob n v
        user_setItem_def localStorage_setItem_def emptyStore_fields Let_def)
qed

text \<open>
  Claim C6 at a concrete input. The user list holds one profile, ``Bob'', soft-deleted.
  userExistsByName, which looks at active users only, answers \<open>false\<close> for ``bob''; yet
  createUser rejects the name ``bob'' as a duplicate, because it collects the names of
  all users, active or not. On a store without that profile the same call creates the
  user.
\<close>

theorem createUser_rejects_deleted_name:
  "getProp deletedBob ''isActive'' = JBool False
   \<and> map_option fst (userExistsByName True plainHost storeWithDeletedBob (JStr ''bob''))
       = Some (Inr False)
   \<and> map_option fst (createUser True plainHost storeWithDeletedBob (JObj [(''name'', JStr ''bob'')]))
       = Some (Inl (Error ''A user with this name already exists''))
   \<and> map_option fst (createUser True plainHost emptyStore (JObj [(''name'', JStr ''bob'')]))
       = Some (Inr (JObj
         [(''id'', JStr ''user_1703891234567_03f7c9''),
          (''name'', JStr ''bob''),
          (''createdAt'', JStr ''2023-12-29T23:07:14.567Z''),
          (''lastActive'', JStr ''2023-12-29T23:07:14.567Z''),
          (''preferences'', JObj DEFAULT_USER_PREFERENCES),
          (''isActive'', JBool True),
          (''metadata'', JObj [(''totalWorkouts'', JNum (Fin 0)), (''firstWorkout'', JNull),
                               (''lastWorkout'', JNull)])]))"
proof -
  obtain st1 where g: "getAllUsers True plainHost storeWithDeletedBob = Some (Inr [normalBob], st1)"
    using getAllUsers_Bob by blast
  have gn: "getProp normalBob ''name'' = JStr ''Bob''" "getProp normalBob ''isActive'' = JBool False"
    by (simp_all add: normalBob_def getProp_def)
  have 1: "getProp deletedBob ''isActive'' = JBool False"
    by (simp add: deletedBob_def getProp_def)
  have 2: "map_option fst (userExistsByName True plainHost storeWithDeletedBob (JStr ''bob''))
       = Some (Inr False)"
    by (simp add: userExistsByName_def g gn truthy_def)
  have 3: "map_option fst (createUser True plainHost storeWithDeletedBob (JObj [(''name'', JStr ''bob'')]))
       = Some (Inl (Error ''A user with this name already exists''))"
  proof -
    have gu: "getProp (JObj [(''name'', JStr ''bob'')]) ''name'' = JStr ''bob''"
      by (simp add: getProp_def)
    show ?thesis
      by (simp add: createUser_def g lowerNames_def gn gu lower_Bob trim_Bob isNullish_def)
  qed
  from 1 2 3 createUser_empty show ?thesis by blast
qed


section \<open>Migration of legacy data\<close>













section \<open>Export followed by import\<close>

lemma storeWithoutIds_fields:
  "localStorage storeWithoutIds =
     [WORKOUT_HISTORY \<mapsto> Json (JArr [squatWithoutId]), APP_SETTINGS \<mapsto> Json storedSettings]"
  "storageFits storeWithoutIds = (\<lambda>content. True)"
  "dateNow storeWithoutIds = (\<lambda>_. 1703891234567)"
  "mathRandom storeWithoutIds = (\<lambda>k. [k mod 16, 3, 15, 7, 12, 9, 10, 11])"
  "isoNow storeWithoutIds = (\<lambda>_. ''2023-12-29T23:07:14.567Z'')"
  "dateCalls storeWithoutIds = 0" "randomCalls storeWithoutIds = 0"
  "isoCalls storeWithoutIds = 0" "perfCalls storeWithoutIds = 0"
  by (simp_all add: storeWithoutIds_def world.defs state.defs busyWorld_def)

lemma storage_keys_distinct:
  "WORKOUT_HISTORY \<noteq> APP_SETTINGS" "APP_SETTINGS \<noteq> WORKOUT_HISTORY"
  "WORKOUT_HISTORY \<noteq> USER_PREFERENCES" "USER_PREFERENCES \<noteq> WORKOUT_HISTORY"
  "USER_PREFERENCES \<noteq> APP_SETTINGS" "APP_SETTINGS \<noteq> USER_PREFERENCES"
  by (simp_all add: WORKOUT_HISTORY_def USER_PREFERENCES_def APP_SETTINGS_def)

lemma history0:
  "getWorkoutHistory plainService calendarHost storeWithoutIds
   = (Inr [squat ''1703891234567_03f7c9''],
      storeWithoutIds\<lparr>dateCalls := 1, randomCalls := 1, isoCalls := 1\<rparr>)"
  by (simp add: getWorkoutHistory_def getItem_def plainService_def getUserScopedKey_def
      storeWithoutIds_fields squatWithoutId_def stringIds_def isNullish_def
      normalize_eval idgen_eval pattern_eval calendarHost_def squat_def
      DataValidators_workout_def requiredWorkoutFields_def isNumber_def numberValue_def leZero_def
      addId_def storage_keys_distinct)

lemmas service_eval =
  getWorkoutHistory_def getItem_def setItem_def plainService_def getUserScopedKey_def
  localStorage_setItem_def JSON_stringify_def
  stringIds_def allStringIds_def addId_def isNullish_def
  DataValidators_workout_def requiredWorkoutFields_def isNumber_def numberValue_def leZero_def
  DataValidators_preferences_def getPreferences_def savePreferences_def saveSettings_def
  getSettings_def spread_def ownEntries_def setProp_def DEFAULT_PREFERENCES_def
  DEFAULT_SETTINGS_def DATA_SCHEMA_VERSION_def storage_keys_distinct

lemma export0:
  "exportData plainService calendarHost storeWithoutIds
   = (Inr (JObj
       [(''version'', JStr ''1.0.0''),
        (''exportDate'', JStr ''2023-12-29T23:07:14.567Z''),
        (''workouts'', JArr [squat ''1703891234567_03f7c9'']),
        (''preferences'', JObj DEFAULT_PREFERENCES),
        (''settings'', storedSettings),
        (''metadata'',
         JObj
          [(''totalWorkouts'', JNum (Fin 1)),
           (''dateRange'',
            JObj [(''earliest'', JNum (Fin 1701388800000)), (''latest'', JNum (Fin 1701388800000))])])]),
      storeWithoutIds\<lparr>dateCalls := 1, randomCalls := 1, isoCalls := 3\<rparr>)"
  unfolding exportData_def history0
  by (simp add: service_eval storeWithoutIds_fields storedSettings_def prepareExportData_def
      toISOString_now_def timesOf_def squat_def getProp_def numMin_def numMax_def numLt_def
      normalizeWorkout_def normalizedId_def convertNumbers_def js_Number_def truthy_def orElse_def numOr_def
      pattern_eval calendarHost_def Let_def)

lemma history1:
  "getWorkoutHistory plainService calendarHost
     (storeWithoutIds\<lparr>dateCalls := 1, randomCalls := 1, isoCalls := 3\<rparr>)
   = (Inr [squat ''1703891234567_13f7c9''],
      storeWithoutIds\<lparr>dateCalls := 2, randomCalls := 2, isoCalls := 4\<rparr>)"
  by (simp add: getWorkoutHistory_def getItem_def plainService_def getUserScopedKey_def
      storeWithoutIds_fields squatWithoutId_def stringIds_def isNullish_def
      normalize_eval idgen_eval pattern_eval calendarHost_def squat_def
      DataValidators_workout_def requiredWorkoutFields_def isNumber_def numberValue_def leZero_def
      addId_def storage_keys_distinct)

lemma bundle0_props:
  "getProp bundle0 ''workouts'' = JArr [squat ''1703891234567_03f7c9'']"
  "getProp bundle0 ''preferences'' = JObj DEFAULT_PREFERENCES"
  "getProp bundle0 ''settings'' = storedSettings"
  "getProp bundle0 ''version'' = JStr ''1.0.0''"
  by (simp_all add: bundle0_def getProp_def)

lemma squat_normal:
  "normalizeWorkout calendarHost s (squat ''1703891234567_03f7c9'') (IdSet S)
   = (Inr (squat ''1703891234567_03f7c9''), snd (toISOString_now s))"
  if "isoNow s = (\<lambda>_. ''2023-12-29T23:07:14.567Z'')"
  using that
  by (simp add: squat_def normalizeWorkout_def normalizedId_def convertNumbers_def js_Number_def
      getProp_def truthy_def orElse_def numOr_def pattern_eval toISOString_now_def isNullish_def Let_def)

lemma squat_normal1:
  "normalizeWorkout calendarHost s (squat ''1703891234567_13f7c9'') (IdSet S)
   = (Inr (squat ''1703891234567_13f7c9''), snd (toISOString_now s))"
  if "isoNow s = (\<lambda>_. ''2023-12-29T23:07:14.567Z'')"
  using that
  by (simp add: squat_def normalizeWorkout_def normalizedId_def convertNumbers_def js_Number_def
      getProp_def truthy_def orElse_def numOr_def pattern_eval toISOString_now_def isNullish_def Let_def)

lemma squat_valid: "DataValidators_workout (squat wid) = Inr True"
  by (simp add: squat_def DataValidators_workout_def requiredWorkoutFields_def isNumber_def
      numberValue_def leZero_def getProp_def isNullish_def)

lemma squat_props: "getProp (squat wid) ''id'' = JStr wid" "getProp (squat wid) ''date'' = JStr ''2023-12-01''"
  "\<not> isNullish (squat wid)"
  by (simp_all add: squat_def getProp_def isNullish_def)

lemma squat_json: "jsonify (squat wid) = squat wid" "squat wid \<noteq> JUndefined"
  by (simp_all add: squat_def)

lemma calendarHost_dateOf:
  "dateOf calendarHost v = (if v = JStr ''2023-12-01'' then Fin 1701388800000 else NaN)"
  by (simp add: calendarHost_def)

lemma importWorkouts1:
  "importWorkouts plainService calendarHost
     (storeWithoutIds\<lparr>dateCalls := 1, randomCalls := 1, isoCalls := 3\<rparr>) bundle0
   = (Inr (),
      storeWithoutIds\<lparr>dateCalls := 2, randomCalls := 2, isoCalls := 5,
        localStorage := (localStorage storeWithoutIds)
          (WORKOUT_HISTORY \<mapsto>
             Json (JArr [squat ''1703891234567_13f7c9'', squat ''1703891234567_03f7c9'']))\<rparr>)"
  unfolding importWorkouts_def bundle0_props history1
  by (simp add: truthy_def isArray_def elements_def allStringIds_def squat_props squat_normal
      squat_valid storeWithoutIds_fields toISOString_now_def addId_def
      sortByTimeDesc_def sortWith_def compareTimeDesc_def calendarHost_dateOf positive_def
      numSub_def numAdd_def numNeg_def toDouble_def
      setItem_def plainService_def getUserScopedKey_def localStorage_setItem_def
      JSON_stringify_def squat_json)

lemma spread_defaults: "spread DEFAULT_PREFERENCES (JObj DEFAULT_PREFERENCES) = DEFAULT_PREFERENCES"
  by (simp add: spread_def ownEntries_def setProp_def DEFAULT_PREFERENCES_def)

lemma defaults_json: "jsonify (JObj DEFAULT_PREFERENCES) = JObj DEFAULT_PREFERENCES"
  by (simp add: DEFAULT_PREFERENCES_def)

lemma defaults_valid: "DataValidators_preferences (JObj DEFAULT_PREFERENCES) = Inr True"
  by (simp add: DataValidators_preferences_def DEFAULT_PREFERENCES_def getProp_def truthy_def isNullish_def)

lemma importPreferences1:
  "importPreferences plainService
     (storeWithoutIds\<lparr>dateCalls := 2, randomCalls := 2, isoCalls := 5,
        localStorage := (localStorage storeWithoutIds)
          (WORKOUT_HISTORY \<mapsto>
             Json (JArr [squat ''1703891234567_13f7c9'', squat ''1703891234567_03f7c9'']))\<rparr>) bundle0
   = storeWithoutIds\<lparr>dateCalls := 2, randomCalls := 2, isoCalls := 5,
        localStorage := (localStorage storeWithoutIds)
          (WORKOUT_HISTORY \<mapsto>
             Json (JArr [squat ''1703891234567_13f7c9'', squat ''1703891234567_03f7c9'']),
           USER_PREFERENCES \<mapsto> Json (JObj DEFAULT_PREFERENCES))\<rparr>"
  unfolding importPreferences_def bundle0_props savePreferences_def spread_defaults
  by (simp add: truthy_def defaults_valid setItem_def plainService_def getUserScopedKey_def
      localStorage_setItem_def JSON_stringify_def defaults_json storeWithoutIds_fields Let_def
      del: jsonify.simps)

lemma history2:
  "getWorkoutHistory plainService calendarHost
     (storeWithoutIds\<lparr>dateCalls := 2, randomCalls := 2, isoCalls := 5,
        localStorage := (localStorage storeWithoutIds)
          (WORKOUT_HISTORY \<mapsto>
             Json (JArr [squat ''1703891234567_13f7c9'', squat ''1703891234567_03f7c9'']),
           USER_PREFERENCES \<mapsto> Json (JObj DEFAULT_PREFERENCES))\<rparr>)
   = (Inr [squat ''1703891234567_13f7c9'', squat ''1703891234567_03f7c9''],
      storeWithoutIds\<lparr>dateCalls := 2, randomCalls := 2, isoCalls := 7,
        localStorage := (localStorage storeWithoutIds)
          (WORKOUT_HISTORY \<mapsto>
             Json (JArr [squat ''1703891234567_13f7c9'', squat ''1703891234567_03f7c9'']),
           USER_PREFERENCES \<mapsto> Json (JObj DEFAULT_PREFERENCES))\<rparr>)"
  by (simp add: getWorkoutHistory_def getItem_def plainService_def getUserScopedKey_def
      storeWithoutIds_fields storage_keys_distinct squat_props squat_normal squat_normal1 squat_valid
      toISOString_now_def stringIds_def addId_def)

lemma importSettings1:
  "storedWorkoutCount plainService
     (snd (importSettings plainService calendarHost
       (storeWithoutIds\<lparr>dateCalls := 2, randomCalls := 2, isoCalls := 5,
          localStorage := (localStorage storeWithoutIds)
            (WORKOUT_HISTORY \<mapsto>
               Json (JArr [squat ''1703891234567_13f7c9'', squat ''1703891234567_03f7c9'']),
             USER_PREFERENCES \<mapsto> Json (JObj DEFAULT_PREFERENCES))\<rparr>) bundle0)) = 2
   \<and> fst (importSettings plainService calendarHost
       (storeWithoutIds\<lparr>dateCalls := 2, randomCalls := 2, isoCalls := 5,
          localStorage := (localStorage storeWithoutIds)
            (WORKOUT_HISTORY \<mapsto>
               Json (JArr [squat ''1703891234567_13f7c9'', squat ''1703891234567_03f7c9'']),
             USER_PREFERENCES \<mapsto> Json (JObj DEFAULT_PREFERENCES))\<rparr>) bundle0) = Inr True"
  unfolding importSettings_def history2 bundle0_props
  by (simp add: getSettings_def saveSettings_def getItem_def setItem_def plainService_def
      getUserScopedKey_def localStorage_setItem_def JSON_stringify_def storeWithoutIds_fields
      storage_keys_distinct storedSettings_def truthy_def isNullish_def getProp_def spread_def
      ownEntries_def setProp_def DEFAULT_SETTINGS_def DATA_SCHEMA_VERSION_def
      storedWorkoutCount_def elements_def Let_def)

text \<open>
  Claim C4 at a concrete input. The history holds one record that was saved without an
  identifier; settings are in place, so exportData writes nothing. Every read of the
  history gives such a record a fresh identifier and does not store it: exportData
  exports the record under one identifier, the read inside importData sees it under
  another, the exported record is not recognised as a duplicate, and the store ends with
  two records instead of one.
\<close>

theorem roundTrip_duplicates_record:
  "storedWorkoutCount plainService storeWithoutIds = 1
   \<and> roundTripCount plainService calendarHost storeWithoutIds = Some 2"
proof
  show "storedWorkoutCount plainService storeWithoutIds = 1"
    by (simp add: storedWorkoutCount_def getItem_def plainService_def getUserScopedKey_def
        storeWithoutIds_fields storage_keys_distinct elements_def)
  have t: "truthy bundle0" "isObjectType bundle0" "truthy (getProp bundle0 ''version'')"
    by (simp_all add: bundle0_props truthy_def) (simp_all add: bundle0_def truthy_def isObjectType_def)
  have "importData plainService calendarHost
          (storeWithoutIds\<lparr>dateCalls := 1, randomCalls := 1, isoCalls := 3\<rparr>) bundle0
        = importSettings plainService calendarHost
       (storeWithoutIds\<lparr>dateCalls := 2, randomCalls := 2, isoCalls := 5,
          localStorage := (localStorage storeWithoutIds)
            (WORKOUT_HISTORY \<mapsto>
               Json (JArr [squat ''1703891234567_13f7c9'', squat ''1703891234567_03f7c9'']),
             USER_PREFERENCES \<mapsto> Json (JObj DEFAULT_PREFERENCES))\<rparr>) bundle0"
    unfolding importData_def importWorkouts1 using t by (simp add: importPreferences1)
  then show "roundTripCount plainService calendarHost storeWithoutIds = Some 2"
    unfolding roundTripCount_def export0 bundle0_def[symmetric]
    using importSettings1 by (simp add: split_beta split: sum.splits)
qed


end
